theory Spec2Isabelle
  imports Main "HOL-Library.Sublist"
begin

section \<open>Errors\<close>

text \<open>
  The error objects of the code are JavaScript \<open>Error\<close>s with properties added as
  needed (\<open>SftpError\<close> in util.ts): a message, the textual \<open>code\<close>, the numeric
  \<open>errno\<close>, the \<open>level\<close>, the numeric code the error was made from (\<open>nativeCode\<close>)
  and the peer's \<open>description\<close>. A property that the code leaves unset is \<open>None\<close>.
\<close>

record sftp_error =
  err_message :: string
  err_code :: "string option"
  err_errno :: "int option"
  err_level :: "string option"
  err_nativeCode :: "int option"
  err_description :: "string option"

section \<open>Packets (sftp-packet.ts)\<close>

type_synonym bytes = "nat list"

text \<open>
  Modelled from the spec: the numeric packet types and status codes of \<open>sftp-enums.ts\<close>,
  which is not among the sources; the numbers are those of the packet table and the status
  table of the specification (\<open>OK\<close> is 0, as in SFTP version 3).
\<close>

definition INIT :: nat where "INIT = 1"
definition VERSION :: nat where "VERSION = 2"
definition READ :: nat where "READ = 5"
definition WRITE :: nat where "WRITE = 6"
definition STATUS :: nat where "STATUS = 101"
definition DATA :: nat where "DATA = 103"
definition EXTENDED :: nat where "EXTENDED = 200"

definition STATUS_OK :: int where "STATUS_OK = 0"
definition STATUS_EOF :: int where "STATUS_EOF = 1"
definition NO_SUCH_FILE :: int where "NO_SUCH_FILE = 2"
definition PERMISSION_DENIED :: int where "PERMISSION_DENIED = 3"
definition FAILURE :: int where "FAILURE = 4"
definition BAD_MESSAGE :: int where "BAD_MESSAGE = 5"
definition NO_CONNECTION :: int where "NO_CONNECTION = 6"
definition CONNECTION_LOST :: int where "CONNECTION_LOST = 7"
definition OP_UNSUPPORTED :: int where "OP_UNSUPPORTED = 8"

text \<open>A packet type is a number, or the name of an extension.\<close>

datatype ptype = PNum nat | PStr string

text \<open>
  An outgoing packet is kept as the type, the request id and the fields in the order the
  \<open>SftpPacketWriter\<close> was asked to write them; the byte encoding of the writer is not
  modelled.
\<close>

datatype field = FInt32 int | FInt64 int | FData bytes | FString string

record packet_writer =
  pw_type :: ptype
  pw_id :: "int option"
  pw_fields :: "field list"

text \<open>
  \<open>ToInt32\<close> of JavaScript: the value of a bitwise operator, a number read as a signed
  32-bit integer.
\<close>

definition ToInt32 :: "int \<Rightarrow> int" where
  "ToInt32 n = (let m = n mod 2 ^ 32 in if m \<ge> 2 ^ 31 then m - 2 ^ 32 else m)"

text \<open>
  An incoming packet is read from its bytes. \<open>SftpPacketReader\<close>: the buffer, the
  cursor, the length, and the type and id found in the header. A thrown \<open>Error\<close> is
  \<open>Inl\<close> of its message.
\<close>

record reader =
  rd_buffer :: bytes
  rd_position :: int
  rd_length :: int
  rd_type :: "ptype option"
  rd_id :: "int option"

definition check :: "int \<Rightarrow> reader \<Rightarrow> string + unit" where
  "check count r =
     (if count > rd_length r - rd_position r then Inl ''Unexpected end of packet'' else Inr ())"

text \<open>\<open>this.buffer[i] & 0xFF\<close>; an index outside the array reads \<open>undefined\<close>, that is 0.\<close>

definition byte_at :: "bytes \<Rightarrow> int \<Rightarrow> int" where
  "byte_at buf i = (if 0 \<le> i \<and> i < int (length buf) then int (buf ! nat i mod 256) else 0)"

definition readByte :: "reader \<Rightarrow> string + (int \<times> reader)" where
  "readByte r =
     (case check 1 r of Inl e \<Rightarrow> Inl e
      | Inr _ \<Rightarrow> Inr (byte_at (rd_buffer r) (rd_position r),
                     r\<lparr> rd_position := rd_position r + 1 \<rparr>))"

text \<open>
  \<open>readUInt32\<close> builds its value with \<open>|=\<close> and \<open><<\<close>, so what it returns is a signed
  32-bit number: the four bytes occupy disjoint bits, their bitwise or is their sum.
\<close>

definition readUInt32 :: "reader \<Rightarrow> string + (int \<times> reader)" where
  "readUInt32 r =
     (case check 4 r of Inl e \<Rightarrow> Inl e
      | Inr _ \<Rightarrow>
          (let p = rd_position r; b = rd_buffer r
           in Inr (ToInt32 (byte_at b p * 2 ^ 24 + byte_at b (p + 1) * 2 ^ 16
                            + byte_at b (p + 2) * 2 ^ 8 + byte_at b (p + 3)),
                   r\<lparr> rd_position := p + 4 \<rparr>)))"

text \<open>\<open>readInt32\<close>: \<open>if (value & 0x80000000) value -= 0x100000000\<close> on that value.\<close>

definition readInt32 :: "reader \<Rightarrow> string + (int \<times> reader)" where
  "readInt32 r =
     (case readUInt32 r of Inl e \<Rightarrow> Inl e
      | Inr (value, r') \<Rightarrow> Inr (if value < 0 then value - 2 ^ 32 else value, r'))"

text \<open>
  \<open>subarray(begin, end)\<close> of a typed array: a negative index counts from the end, both
  are clamped to the array.
\<close>

definition subarray :: "bytes \<Rightarrow> int \<Rightarrow> int \<Rightarrow> bytes" where
  "subarray buf begin end' =
     (let len = int (length buf);
          rel = (\<lambda>i. if i < 0 then max (len + i) 0 else min i len)
      in take (nat (rel end' - rel begin)) (drop (nat (rel begin)) buf))"

definition readData :: "reader \<Rightarrow> string + (bytes \<times> reader)" where
  "readData r =
     (case readUInt32 r of Inl e \<Rightarrow> Inl e
      | Inr (len, r1) \<Rightarrow>
          (case check len r1 of Inl e \<Rightarrow> Inl e
           | Inr _ \<Rightarrow>
               Inr (subarray (rd_buffer r1) (rd_position r1) (rd_position r1 + len),
                    r1\<lparr> rd_position := rd_position r1 + len \<rparr>)))"

text \<open>
  \<open>readString\<close> decodes the bytes as UTF-8 (\<open>charsets.ts\<close>); a string is kept here as its
  bytes.
\<close>

definition readString :: "reader \<Rightarrow> string + (string \<times> reader)" where
  "readString r =
     (case readData r of Inl e \<Rightarrow> Inl e
      | Inr (bs, r') \<Rightarrow> Inr (map (\<lambda>b. char_of b) bs, r'))"

text \<open>The constructor of \<open>SftpPacketReader\<close> for a whole packet (\<open>raw\<close> unset).\<close>

definition reader_new :: "bytes \<Rightarrow> string + reader" where
  "reader_new buffer =
     (let r0 = \<lparr> rd_buffer = buffer, rd_position = 0, rd_length = int (length buffer),
                 rd_type = None, rd_id = None \<rparr>
      in case readInt32 r0 of Inl e \<Rightarrow> Inl e
         | Inr (len, r1) \<Rightarrow>
             if len + 4 \<noteq> rd_length r1 then Inl ''Invalid packet received''
             else (case readByte r1 of Inl e \<Rightarrow> Inl e
                   | Inr (t, r2) \<Rightarrow>
                       if nat t = INIT \<or> nat t = VERSION
                       then Inr (r2\<lparr> rd_type := Some (PNum (nat t)), rd_id := None \<rparr>)
                       else (case readInt32 r2 of Inl e \<Rightarrow> Inl e
                             | Inr (i, r3) \<Rightarrow>
                                 if nat t = EXTENDED
                                 then (case readString r3 of Inl e \<Rightarrow> Inl e
                                       | Inr (name, r4) \<Rightarrow>
                                           Inr (r4\<lparr> rd_type := Some (PStr name), rd_id := Some i \<rparr>))
                                 else Inr (r3\<lparr> rd_type := Some (PNum (nat t)), rd_id := Some i \<rparr>))))"

section \<open>Channel abstraction (channel.ts, channel-ws.ts, channel-web.ts)\<close>

text \<open>
  \<open>WebSocketChannel\<close> is abstract; its two subclasses are \<open>WebSocketChannelWS\<close>, over the
  \<open>ws\<close> package, and \<open>WebSocketChannelWeb\<close>, over the WebSocket of a browser.
\<close>

datatype channel_class = WebSocketChannelWS | WebSocketChannelWeb

text \<open>
  The state of a channel. \<open>onclose\<close> holds the registered close listener (its identity is
  a number here), \<open>failed\<close> is the field of that name of \<open>WebSocketChannelWeb\<close> (a
  \<open>WebSocketChannelWS\<close> has none, and never reads it), \<open>ws_closed_with\<close> records the
  calls of \<open>doClose\<close> on the underlying socket, with the reason that was passed,
  \<open>ws_sent\<close> the packets handed to \<open>doSend\<close>.
\<close>

record channel =
  ch_class :: channel_class
  established :: bool
  closed :: bool
  onclose :: "nat option"
  failed :: bool
  ws_closed_with :: "int list"
  ws_sent :: "packet_writer list"


text \<open>The constructors: \<open>new WebSocketChannelWS(ws, true, est)\<close> and its browser twin.\<close>

definition new_channel :: "channel_class \<Rightarrow> bool \<Rightarrow> channel" where
  "new_channel cls est =
     \<lparr> ch_class = cls, established = est, closed = False, onclose = None, failed = False,
       ws_closed_with = [], ws_sent = [] \<rparr>"

definition channel_init :: "channel \<Rightarrow> channel" where
  "channel_init ch = ch\<lparr> onclose := None, established := True \<rparr>"






text \<open>\<open>close(reason)\<close>: marks the channel closed, drops the listener, closes the socket.\<close>

definition channel_close :: "int option \<Rightarrow> channel \<Rightarrow> channel" where
  "channel_close reason ch =
     (if closed ch then ch
      else ch\<lparr> closed := True, onclose := None,
               ws_closed_with := ws_closed_with ch @
                 [case reason of None \<Rightarrow> 1000 | Some r \<Rightarrow> (if r = 0 then 1000 else r)] \<rparr>)"

text \<open>\<open>send(packet)\<close>: dropped silently once the channel is closed.\<close>

definition channel_send :: "packet_writer \<Rightarrow> channel \<Rightarrow> channel" where
  "channel_send packet ch = (if closed ch then ch else ch\<lparr> ws_sent := ws_sent ch @ [packet] \<rparr>)"






section \<open>Client protocol engine (sftp-client.ts)\<close>

definition MAX_WRITE_BLOCK_LENGTH :: nat where
  "MAX_WRITE_BLOCK_LENGTH = 1024 * 1024"

definition MAX_READ_BLOCK_LENGTH :: nat where
  "MAX_READ_BLOCK_LENGTH = 1024 * 1024"

text \<open>
  \<open>SftpCommandInfo\<close>, with the fields the modelled operations set. A handle is the
  buffer of an \<open>SftpHandle\<close>.
\<close>

record command_info =
  ci_command :: string
  ci_path :: "string option"
  ci_handle :: "bytes option"

text \<open>
  The response parsers that are registered with a request. The parser of \<open>read\<close> is a
  closure over \<open>retries\<close>, the handle, the caller's buffer, offset, length and position.
\<close>

datatype parser =
    InitParser
  | StatusParser
  | DataParser nat bytes "bytes option" int int int

record request =
  rq_callback :: nat
  rq_parser :: parser
  rq_info :: command_info

text \<open>
  \<open>SftpClientCore\<close>: the bound channel, the id counter and the request table. The table
  is indexed by \<open>request.id\<close>, which is \<open>null\<close> (\<open>None\<close>) for INIT.
\<close>

record client =
  c_host :: "channel option"
  c_id :: "int option"
  c_requests :: "int option \<Rightarrow> request option"
  c_maxReadBlockLength :: int
  c_maxWriteBlockLength :: int

definition new_client :: client where
  "new_client = \<lparr> c_host = None, c_id = None, c_requests = (\<lambda>k. None),
                  c_maxReadBlockLength = int MAX_READ_BLOCK_LENGTH,
                  c_maxWriteBlockLength = int MAX_WRITE_BLOCK_LENGTH \<rparr>"

text \<open>What a callback of the client receives besides the error.\<close>

datatype cb_payload = NoPayload | ReadResult "bytes option" int

text \<open>
  What a call into the client leads to: a callback is run, an \<open>Error\<close> is thrown, a
  request was sent and is awaited, or (INIT parser only) the version was accepted and
  the parser goes on to read the extensions and to call \<open>callback()\<close>; that part uses
  \<open>sftp-misc.ts\<close> and is not modelled.
\<close>

datatype outcome =
    Called nat "sftp_error option" cb_payload
  | Threw string
  | Awaiting
  | VersionAccepted

subsection \<open>Errors made by the client\<close>

definition hex_digit :: "nat \<Rightarrow> char" where
  "hex_digit n = (''0123456789abcdef'') ! (n mod 16)"

text \<open>\<open>SftpHandle.toString\<close>.\<close>

definition handle_toString :: "bytes \<Rightarrow> string" where
  "handle_toString h = ''0x'' @ concat (map (\<lambda>b. [hex_digit (b div 16), hex_digit b]) h)"

definition createError :: "int \<Rightarrow> string \<Rightarrow> command_info \<Rightarrow> sftp_error" where
  "createError nativeCode message info =
     (let (code, errno) =
            (if nativeCode = STATUS_EOF then (''EOF'', 1)
             else if nativeCode = NO_SUCH_FILE then (''ENOENT'', 34)
             else if nativeCode = PERMISSION_DENIED then (''EACCES'', 3)
             else if nativeCode = STATUS_OK \<or> nativeCode = FAILURE \<or> nativeCode = BAD_MESSAGE
               then (''EFAILURE'', - 2)
             else if nativeCode = NO_CONNECTION then (''ENOTCONN'', 31)
             else if nativeCode = CONNECTION_LOST then (''ESHUTDOWN'', 46)
             else if nativeCode = OP_UNSUPPORTED then (''ENOSYS'', 35)
             else (''UNKNOWN'', - 1));
          arg = (case (case ci_path info of Some p \<Rightarrow> if p = [] then None else Some p
                       | None \<Rightarrow> None) of
                   Some p \<Rightarrow> [CHR 0x27] @ p @ [CHR 0x27]
                 | None \<Rightarrow> (case ci_handle info of Some h \<Rightarrow> handle_toString h | None \<Rightarrow> []))
      in \<lparr> err_message = code @ '', '' @ ci_command info @ '' '' @ arg,
           err_code = Some code, err_errno = Some errno, err_level = None,
           err_nativeCode = Some nativeCode, err_description = Some message \<rparr>)"

definition readStatus :: "command_info \<Rightarrow> reader \<Rightarrow> string + (sftp_error option \<times> reader)" where
  "readStatus info response =
     (case readInt32 response of Inl e \<Rightarrow> Inl e
      | Inr (nativeCode, r1) \<Rightarrow>
          (case readString r1 of Inl e \<Rightarrow> Inl e
           | Inr (message, r2) \<Rightarrow>
               if nativeCode = STATUS_OK then Inr (None, r2)
               else Inr (Some (createError nativeCode message info), r2)))"

subsection \<open>Request ids and the request table\<close>

definition getRequest :: "ptype \<Rightarrow> client \<Rightarrow> client \<times> (string + packet_writer)" where
  "getRequest t c =
     (let request = \<lparr> pw_type = t, pw_id = c_id c, pw_fields = [] \<rparr>
      in if t = PNum INIT then
           (if c_id c \<noteq> None then (c, Inl ''Already initialized'')
            else (c\<lparr> c_id := Some 1 \<rparr>, Inr request))
         else
           (case c_id c of
              None \<Rightarrow> (c, Inl ''Must be initialized first'')
            | Some i \<Rightarrow> (c\<lparr> c_id := Some (ToInt32 (i + 1)) \<rparr>, Inr request)))"

definition write_field :: "field \<Rightarrow> packet_writer \<Rightarrow> packet_writer" where
  "write_field f request = request\<lparr> pw_fields := pw_fields request @ [f] \<rparr>"

definition execute ::
  "packet_writer \<Rightarrow> nat \<Rightarrow> parser \<Rightarrow> command_info \<Rightarrow> client \<Rightarrow> client \<times> outcome" where
  "execute request callback responseParser info c =
     (case c_host c of
        None \<Rightarrow> (c, Called callback (Some (createError NO_CONNECTION ''Not connected'' info)) NoPayload)
      | Some host \<Rightarrow>
          if pw_id request \<noteq> None \<and> c_requests c (pw_id request) \<noteq> None
          then (c, Threw ''Duplicate request'')
          else (c\<lparr> c_host := Some (channel_send request host),
                   c_requests := (c_requests c)(pw_id request \<mapsto>
                     \<lparr> rq_callback = callback, rq_parser = responseParser, rq_info = info \<rparr>) \<rparr>,
                Awaiting))"

subsection \<open>Handshake\<close>

text \<open>\<open>_init(host, log, callback)\<close>: binds the channel and sends INIT with version 3.\<close>

definition client_init :: "channel \<Rightarrow> nat \<Rightarrow> client \<Rightarrow> client \<times> outcome" where
  "client_init host callback c =
     (if c_host c \<noteq> None then (c, Threw ''Already bound'')
      else
        let c1 = c\<lparr> c_host := Some host \<rparr>
        in case getRequest (PNum INIT) c1 of
             (c2, Inl e) \<Rightarrow> (c2, Threw e)
           | (c2, Inr request) \<Rightarrow>
               execute (write_field (FInt32 3) request) callback InitParser
                 \<lparr> ci_command = ''init'', ci_path = None, ci_handle = None \<rparr> c2)"

text \<open>\<open>host.close(3002)\<close>, on the channel the client is bound to.\<close>

definition host_close :: "int \<Rightarrow> client \<Rightarrow> client" where
  "host_close reason c = c\<lparr> c_host := map_option (channel_close (Some reason)) (c_host c) \<rparr>"

definition protocol_violation :: sftp_error where
  "protocol_violation =
     \<lparr> err_message = ''Protocol violation'', err_code = None, err_errno = None,
       err_level = None, err_nativeCode = None, err_description = None \<rparr>"

text \<open>The response parser that \<open>_init\<close> registers for the answer to INIT.\<close>

definition init_parser :: "reader \<Rightarrow> nat \<Rightarrow> command_info \<Rightarrow> client \<Rightarrow> client \<times> outcome" where
  "init_parser response callback info c =
     (if rd_type response \<noteq> Some (PNum VERSION)
      then (host_close 3002 c, Called callback (Some protocol_violation) NoPayload)
      else case readInt32 response of
             Inl e \<Rightarrow> (c, Threw e)
           | Inr (version, r1) \<Rightarrow>
               if version \<noteq> 3
               then (host_close 3002 c,
                     Called callback
                       (Some (createError BAD_MESSAGE ''Unexpected protocol version'' info))
                       NoPayload)
               else (c, VersionAccepted))"

subsection \<open>Reading\<close>

definition eio_error :: "sftp_error \<Rightarrow> sftp_error" where
  "eio_error e = e\<lparr> err_code := Some ''EIO'', err_errno := Some 55 \<rparr>"

text \<open>\<open>buffer.set(data, offset)\<close>, within the bounds that \<open>checkBuffer\<close> has checked.\<close>

definition buffer_set :: "bytes \<Rightarrow> bytes \<Rightarrow> nat \<Rightarrow> bytes" where
  "buffer_set buffer data' offset =
     take offset buffer @ data' @ drop (offset + length data') buffer"

definition read_request :: "bytes \<Rightarrow> int \<Rightarrow> int \<Rightarrow> packet_writer \<Rightarrow> packet_writer" where
  "read_request h position len request =
     write_field (FInt32 len) (write_field (FInt64 position) (write_field (FData h) request))"

text \<open>
  \<open>parseData\<close>. After \<open>length = data.length\<close> the retry is sent with that length, which
  is 0 on this path, and the parser of the retry carries the same 0 as its \<open>length\<close>.
\<close>

definition parseData ::
  "reader \<Rightarrow> nat \<Rightarrow> command_info \<Rightarrow> nat \<Rightarrow> bytes \<Rightarrow> bytes option \<Rightarrow> int \<Rightarrow> int \<Rightarrow> int
     \<Rightarrow> client \<Rightarrow> client \<times> outcome" where
  "parseData response callback info retries h buffer offset len position c =
     (case (if rd_type response = Some (PNum STATUS)
            then (case readStatus info response of
                    Inl e \<Rightarrow> Inl (Threw e)
                  | Inr (Some error, r1) \<Rightarrow>
                      if err_nativeCode error = Some STATUS_EOF
                      then Inl (Called callback None (ReadResult (Some []) 0))
                      else Inl (Called callback (Some error) (ReadResult None 0))
                  | Inr (None, r1) \<Rightarrow> Inr r1)
            else Inr response) of
        Inl result \<Rightarrow> (c, result)
      | Inr r \<Rightarrow>
          (case readData r of
             Inl e \<Rightarrow> (c, Threw e)
           | Inr (data', r2) \<Rightarrow>
               if int (length data') > len then (c, Threw ''Received too much data'')
               else if length data' = 0 then
                 (if retries > 4
                  then (c, Called callback
                             (Some (eio_error (createError FAILURE ''Unable to read data'' info)))
                             (ReadResult None 0))
                  else (case getRequest (PNum READ) c of
                          (c1, Inl e) \<Rightarrow> (c1, Threw e)
                        | (c1, Inr request) \<Rightarrow>
                            execute (read_request h position 0 request) callback
                              (DataParser (retries + 1) h buffer offset 0 position) info c1))
               else
                 (c, Called callback None
                       (ReadResult
                          (Some (case buffer of None \<Rightarrow> data'
                                 | Some b \<Rightarrow> buffer_set b data' (nat offset)))
                          (int (length data'))))))"

text \<open>
  The caller's handle: missing, one that is not an \<open>SftpHandle\<close> of this client, or
  one of this client with its buffer.
\<close>

datatype handle_arg = MissingHandle | ForeignHandle | OwnHandle bytes

definition toHandle :: "handle_arg \<Rightarrow> string + bytes" where
  "toHandle handle =
     (case handle of
        MissingHandle \<Rightarrow> Inl ''Missing handle''
      | ForeignHandle \<Rightarrow> Inl ''Invalid handle''
      | OwnHandle h \<Rightarrow> Inr h)"

definition checkBuffer :: "bytes \<Rightarrow> int \<Rightarrow> int \<Rightarrow> string + unit" where
  "checkBuffer buffer offset len =
     (if offset < 0 then Inl ''Invalid offset''
      else if len < 0 then Inl ''Invalid length''
      else if offset + len > int (length buffer) then Inl ''Offset or length is out of bounds''
      else Inr ())"

definition checkPosition :: "int \<Rightarrow> string + unit" where
  "checkPosition position =
     (if position < 0 \<or> position > 0x7fffffffffffffff then Inl ''Invalid position'' else Inr ())"

definition read_too_long :: "int \<Rightarrow> int \<Rightarrow> sftp_error" where
  "read_too_long len maxlen =
     \<lparr> err_message = ''Length exceeds maximum allowed read data block length'',
       err_code = Some ''EIO'', err_errno = Some 55, err_level = None,
       err_nativeCode = None, err_description = None \<rparr>"

definition client_read ::
  "handle_arg \<Rightarrow> bytes option \<Rightarrow> int \<Rightarrow> int \<Rightarrow> int \<Rightarrow> nat \<Rightarrow> client \<Rightarrow> client \<times> outcome" where
  "client_read handle buffer offset len position callback c =
     (case toHandle handle of
        Inl e \<Rightarrow> (c, Threw e)
      | Inr h \<Rightarrow>
          (case (case buffer of Some b \<Rightarrow> checkBuffer b offset len | None \<Rightarrow> Inr ()) of
             Inl e \<Rightarrow> (c, Threw e)
           | Inr _ \<Rightarrow>
               (case checkPosition position of
                  Inl e \<Rightarrow> (c, Threw e)
                | Inr _ \<Rightarrow>
                    if len > c_maxReadBlockLength c
                    then (c, Called callback (Some (read_too_long len (c_maxReadBlockLength c)))
                               (ReadResult buffer 0))
                    else (case getRequest (PNum READ) c of
                            (c1, Inl e) \<Rightarrow> (c1, Threw e)
                          | (c1, Inr request) \<Rightarrow>
                              execute (read_request h position len request) callback
                                (DataParser 0 h buffer offset len position)
                                \<lparr> ci_command = ''read'', ci_path = None, ci_handle = Some h \<rparr>
                                c1))))"

subsection \<open>Responses\<close>

definition parseStatus :: "reader \<Rightarrow> nat \<Rightarrow> command_info \<Rightarrow> client \<Rightarrow> client \<times> outcome" where
  "parseStatus response callback info c =
     (if rd_type response = Some (PNum STATUS)
      then (case readStatus info response of
              Inl e \<Rightarrow> (c, Threw e)
            | Inr (Some error, r1) \<Rightarrow> (c, Called callback (Some error) NoPayload)
            | Inr (None, r1) \<Rightarrow> (c, Called callback None NoPayload))
      else (c, Threw ''Unexpected packet received''))"

fun run_parser :: "parser \<Rightarrow> reader \<Rightarrow> request \<Rightarrow> client \<Rightarrow> client \<times> outcome" where
  "run_parser InitParser response rq c = init_parser response (rq_callback rq) (rq_info rq) c"
| "run_parser StatusParser response rq c = parseStatus response (rq_callback rq) (rq_info rq) c"
| "run_parser (DataParser retries h buffer offset len position) response rq c =
     parseData response (rq_callback rq) (rq_info rq) retries h buffer offset len position c"

text \<open>
  \<open>_process\<close>, from the decoded header on: the request is looked up by the id of the
  response and removed, then its parser runs.
\<close>

definition process_response :: "reader \<Rightarrow> client \<Rightarrow> client \<times> outcome" where
  "process_response response c =
     (case c_requests c (rd_id response) of
        None \<Rightarrow> (c, Threw ''Unknown response ID'')
      | Some rq \<Rightarrow>
          run_parser (rq_parser rq) response rq
            (c\<lparr> c_requests := (c_requests c)(rd_id response := None) \<rparr>))"

definition client_process :: "bytes \<Rightarrow> client \<Rightarrow> client \<times> outcome" where
  "client_process packet c =
     (case reader_new packet of
        Inl e \<Rightarrow> (c, Threw e)
      | Inr response \<Rightarrow> process_response response c)"

subsection \<open>Observing the client\<close>

text \<open>The close codes and the packets that the bound channel has seen.\<close>

definition host_closed_with :: "client \<Rightarrow> int list" where
  "host_closed_with c = (case c_host c of Some h \<Rightarrow> ws_closed_with h | None \<Rightarrow> [])"

definition host_sent :: "client \<Rightarrow> packet_writer list" where
  "host_sent c = (case c_host c of Some h \<Rightarrow> ws_sent h | None \<Rightarrow> [])"

definition last_request_id :: "client \<Rightarrow> int option" where
  "last_request_id c = (if host_sent c = [] then None else pw_id (last (host_sent c)))"

text \<open>The ids that \<open>n\<close> successive calls of \<open>getRequest\<close> hand out.\<close>

fun allocate :: "nat \<Rightarrow> ptype \<Rightarrow> client \<Rightarrow> int option list" where
  "allocate 0 t c = []"
| "allocate (Suc n) t c =
     (case getRequest t c of
        (c', Inr request) \<Rightarrow> pw_id request # allocate n t c'
      | (c', Inl e) \<Rightarrow> [])"

text \<open>A DATA response whose data has length zero.\<close>

definition zero_length_data :: "reader \<Rightarrow> bool" where
  "zero_length_data r =
     (rd_type r = Some (PNum DATA)
      \<and> (case readData r of Inr (d, r') \<Rightarrow> d = [] | Inl e \<Rightarrow> False))"

text \<open>
  A server that answers the latest request of the client with the response \<open>mk id\<close>,
  \<open>n\<close> times over or until the client stops waiting.
\<close>

fun feed :: "nat \<Rightarrow> (int \<Rightarrow> reader) \<Rightarrow> client \<Rightarrow> client \<times> outcome" where
  "feed 0 mk c = (c, Awaiting)"
| "feed (Suc n) mk c =
     (case last_request_id c of
        None \<Rightarrow> (c, Threw ''No request'')
      | Some j \<Rightarrow>
          (case process_response (mk j) c of
             (c', Awaiting) \<Rightarrow> feed n mk c'
           | (c', out) \<Rightarrow> (c', out)))"

text \<open>
  The reader on a DATA packet with the given id and no data, as \<open>reader_new\<close> leaves
  it: the cursor stands behind the header. \<open>int32_bytes\<close> are the four bytes that
  \<open>writeInt32\<close> writes for a number.
\<close>

definition int32_bytes :: "int \<Rightarrow> bytes" where
  "int32_bytes v =
     [nat (v div 2 ^ 24 mod 256), nat (v div 2 ^ 16 mod 256), nat (v div 2 ^ 8 mod 256),
      nat (v mod 256)]"

definition empty_data_response :: "int \<Rightarrow> reader" where
  "empty_data_response i =
     \<lparr> rd_buffer = [0, 0, 0, 9, 103] @ int32_bytes i @ [0, 0, 0, 0],
       rd_position = 9, rd_length = 13, rd_type = Some (PNum DATA), rd_id = Some i \<rparr>"

text \<open>
  A read is in progress: the channel is open, the latest request has id \<open>j\<close> and is in the
  table with the parser of \<open>read\<close> at the given number of retries, and the counter stands
  at \<open>j + 1\<close>.
\<close>

definition read_pending ::
  "client \<Rightarrow> int \<Rightarrow> nat \<Rightarrow> nat \<Rightarrow> bytes \<Rightarrow> bytes option \<Rightarrow> int \<Rightarrow> int \<Rightarrow> int \<Rightarrow> command_info
     \<Rightarrow> bool" where
  "read_pending c j retries cb h buffer offset len position info =
     ((case c_host c of Some host \<Rightarrow> \<not> closed host | None \<Rightarrow> False)
      \<and> last_request_id c = Some j
      \<and> c_id c = Some (j + 1)
      \<and> c_requests c (Some j) =
          Some \<lparr> rq_callback = cb, rq_parser = DataParser retries h buffer offset len position,
                 rq_info = info \<rparr>
      \<and> 0 \<le> len)"

text \<open>A client that is bound to an established channel and has completed INIT.\<close>

definition ready_client :: client where
  "ready_client = new_client\<lparr> c_host := Some (channel_init (new_channel WebSocketChannelWS False)), c_id := Some 1 \<rparr>"

text \<open>
  The same client when its counter has come round to 7 while the request with id 7 is
  still in the table.
\<close>

definition busy_client :: client where
  "busy_client =
     ready_client\<lparr> c_id := Some 7,
       c_requests := (\<lambda>k. None)(Some 7 \<mapsto>
         \<lparr> rq_callback = 1, rq_parser = StatusParser,
           rq_info = \<lparr> ci_command = ''close'', ci_path = None, ci_handle = Some [0, 0, 0, 3] \<rparr> \<rparr>) \<rparr>"

section \<open>Filesystem adapter with caches (websocketfs/lib/sftp-fuse.ts)\<close>

subsection \<open>Host libraries\<close>

text \<open>
  The adapter calls into libraries that are not part of the repository. They are taken
  as parameters: the error table of the FUSE binding (\<open>Fuse[name]\<close>, \<open>Fuse.ENOTCONN\<close>,
  \<open>Fuse.ENOSYS\<close>), \<open>dirname\<close> of the \<open>path\<close> module and \<open>convertOpenFlags\<close> of
  \<open>./flags\<close>.
\<close>

record host_env =
  Fuse_lookup :: "string \<Rightarrow> int option"
  Fuse_ENOTCONN :: int
  Fuse_ENOSYS :: int
  dirname :: "string \<Rightarrow> string"
  convertOpenFlags :: "int \<Rightarrow> string"

text \<open>
  \<open>TTLCache\<close> of \<open>@isaacs/ttlcache\<close>, as the adapter uses it: \<open>set\<close> stores a value that
  expires \<open>ttl\<close> milliseconds later, \<open>has\<close> and \<open>get\<close> see an entry until it expires,
  \<open>delete\<close> removes it. The clock is passed in as \<open>now\<close>. A stored value may be
  \<open>undefined\<close>; \<open>has\<close> looks at the key only.
\<close>

record 'v ttl_cache =
  ttl :: nat
  entries :: "string \<Rightarrow> ('v \<times> nat) option"

definition cache_has :: "'v ttl_cache \<Rightarrow> nat \<Rightarrow> string \<Rightarrow> bool" where
  "cache_has c now k = (case entries c k of None \<Rightarrow> False | Some (v, expiry) \<Rightarrow> now < expiry)"

definition cache_get :: "'v ttl_cache \<Rightarrow> nat \<Rightarrow> string \<Rightarrow> 'v option" where
  "cache_get c now k =
     (case entries c k of None \<Rightarrow> None
      | Some (v, expiry) \<Rightarrow> if now < expiry then Some v else None)"

definition cache_set :: "'v ttl_cache \<Rightarrow> nat \<Rightarrow> string \<Rightarrow> 'v \<Rightarrow> 'v ttl_cache" where
  "cache_set c now k v = c\<lparr> entries := (entries c)(k \<mapsto> (v, now + ttl c)) \<rparr>"

definition cache_delete :: "'v ttl_cache \<Rightarrow> string \<Rightarrow> 'v ttl_cache" where
  "cache_delete c k = c\<lparr> entries := (entries c)(k := None) \<rparr>"

subsection \<open>State of the adapter\<close>

datatype fuse_state = Init | Connecting | Ready | Closed

record attrs =
  attr_mtime :: int
  attr_size :: int
  attr_mode :: int

text \<open>An attribute cache entry is \<open>{errno}\<close> or \<open>{attr}\<close>.\<close>

datatype attr_entry = NegativeEntry int | AttrEntry attrs

text \<open>
  \<open>data\<close> is the per-descriptor write buffer: the records \<open>{buffer, position}\<close> in the
  order they were written. A link cache value is \<open>None\<close> when \<open>undefined\<close> was stored.
\<close>

record adapter =
  state :: fuse_state
  data :: "int \<Rightarrow> (bytes \<times> int) list option"
  attrCache :: "attr_entry ttl_cache option"
  dirCache :: "string list ttl_cache option"
  linkCache :: "string option ttl_cache option"
  readTracking :: "bool ttl_cache option"
  readTrackingModified :: int

text \<open>The requests the adapter hands to the SFTP client, with their arguments.\<close>

datatype setstat_attrs = SetSize int | SetTimes int int | SetMode int

datatype sftp_call =
    CallSetstat string setstat_attrs
  | CallOpen string string
  | CallWrite int bytes int
  | CallClose int
  | CallUnlink string
  | CallRename string string int
  | CallLink string string
  | CallSymlink string string
  | CallMkdir string int
  | CallRmdir string
  | CallReadlink string

text \<open>
  What the FUSE callback \<open>cb\<close> receives: a status (or byte count) alone, a status with a
  link target, or nothing yet (\<open>Later\<close>: the callback runs when the issued request
  completes). \<open>Raised\<close> stands for the TypeError of a call on the deleted \<open>this.sftp\<close>:
  the field is set exactly while the state is \<open>ready\<close>.
\<close>

datatype fuse_cb = Done int | DoneLink int "string option" | Later | Raised

subsection \<open>Error numbers\<close>

definition getErrno :: "host_env \<Rightarrow> sftp_error \<Rightarrow> int" where
  "getErrno env err =
     (case (case err_description err of None \<Rightarrow> None | Some d \<Rightarrow> Fuse_lookup env d) of
        Some e \<Rightarrow> e
      | None \<Rightarrow>
          (case err_code err of
             None \<Rightarrow> Fuse_ENOSYS env
           | Some c \<Rightarrow>
               (case (case Fuse_lookup env c of None \<Rightarrow> None
                      | Some n \<Rightarrow> if n = 0 then None else Some n) of
                  Some n \<Rightarrow> n
                | None \<Rightarrow>
                    (case err_errno err of
                       Some n \<Rightarrow> - \<bar>n\<bar>
                     | None \<Rightarrow> Fuse_ENOSYS env))))"

text \<open>\<open>fuseError(cb)(err)\<close>: the status that reaches \<open>cb\<close>.\<close>

definition fuseError :: "host_env \<Rightarrow> sftp_error option \<Rightarrow> int" where
  "fuseError env err = (case err of Some e \<Rightarrow> getErrno env e | None \<Rightarrow> 0)"

subsection \<open>Cache invalidation\<close>

definition clearCache :: "host_env \<Rightarrow> string \<Rightarrow> adapter \<Rightarrow> adapter" where
  "clearCache env path s =
     (let s1 = s\<lparr> attrCache := map_option (\<lambda>c. cache_delete c path) (attrCache s) \<rparr>
      in case dirCache s1 of
           None \<Rightarrow> s1
         | Some d \<Rightarrow>
             s1\<lparr> dirCache := Some (cache_delete (cache_delete d path) (dirname env path)) \<rparr>)"

definition trackRead :: "nat \<Rightarrow> string \<Rightarrow> adapter \<Rightarrow> adapter" where
  "trackRead now path s =
     (case (readTracking s, attrCache s) of
        (Some rt, Some ac) \<Rightarrow>
          (let rt1 = (if readTrackingModified s = 0 then cache_set rt now path True else rt)
           in case cache_get ac now path of
                Some (AttrEntry x) \<Rightarrow>
                  (if int now - attr_mtime x \<le> 1000 * readTrackingModified s
                   then s\<lparr> readTracking := Some (cache_delete rt1 path) \<rparr>
                   else s\<lparr> readTracking := Some (cache_set rt1 now path True) \<rparr>)
              | _ \<Rightarrow> s\<lparr> readTracking := Some rt1 \<rparr>)
      | _ \<Rightarrow> s)"

subsection \<open>Write coalescing\<close>

text \<open>
  \<open>writeToDisk\<close>: the loop that writes \<open>buffer\<close> from \<open>offset\<close> on in blocks of at most
  \<open>MAX_WRITE_BLOCK_LENGTH\<close>. The reply of the server to the \<open>k\<close>-th WRITE of a flush is
  \<open>rp k\<close> (\<open>None\<close> for success); a failed write ends the loop, as the rejected promise
  does. The result is the list of the writes issued, the number of replies used and the
  error, if any.
\<close>

function writeToDisk_loop ::
  "(nat \<Rightarrow> sftp_error option) \<Rightarrow> nat \<Rightarrow> int \<Rightarrow> bytes \<Rightarrow> nat \<Rightarrow> nat \<Rightarrow> int
     \<Rightarrow> sftp_call list \<times> nat \<times> sftp_error option" where
  "writeToDisk_loop rp k fd buffer len offset position =
     (if len > 0 then
        (let n = min MAX_WRITE_BLOCK_LENGTH len;
             call = CallWrite fd (take n (drop offset buffer)) position
         in case rp k of
              Some e \<Rightarrow> ([call], Suc k, Some e)
            | None \<Rightarrow>
                (case writeToDisk_loop rp (Suc k) fd buffer (len - n) (offset + n)
                        (position + int n) of
                   (calls, k', r) \<Rightarrow> (call # calls, k', r)))
      else ([], k, None))"
  by pat_completeness auto
termination
  by (relation "measure (\<lambda>(rp, k, fd, buffer, len, offset, position). len)")
     (auto simp: MAX_WRITE_BLOCK_LENGTH_def)

definition writeToDisk ::
  "(nat \<Rightarrow> sftp_error option) \<Rightarrow> nat \<Rightarrow> int \<Rightarrow> bytes \<Rightarrow> nat \<Rightarrow> int
     \<Rightarrow> sftp_call list \<times> nat \<times> sftp_error option" where
  "writeToDisk rp k fd buffer len position =
     writeToDisk_loop rp k fd buffer (min len (length buffer)) 0 position"

text \<open>
  The inner loop of \<open>flush\<close>: while the next record starts where the buffer ends, append
  it. The result is the grown buffer and the records left.
\<close>

fun coalesce :: "bytes \<Rightarrow> int \<Rightarrow> (bytes \<times> int) list \<Rightarrow> bytes \<times> (bytes \<times> int) list" where
  "coalesce buffer position [] = (buffer, [])"
| "coalesce buffer position ((b, p) # rest) =
     (if p = int (length buffer) + position then coalesce (buffer @ b) position rest
      else (buffer, (b, p) # rest))"

lemma coalesce_length [termination_simp]:
  "length (snd (coalesce buffer position recs)) \<le> length recs"
proof (induction recs arbitrary: buffer)
  case Nil
  then show ?case by simp
next
  case (Cons r recs)
  obtain b p where r: "r = (b, p)" by (cases r)
  show ?case using Cons [of "buffer @ b"] by (simp add: r le_SucI)
qed

text \<open>The outer loop of \<open>flush\<close>, over the records taken from \<open>data[fd]\<close>.\<close>

function flush_loop ::
  "(nat \<Rightarrow> sftp_error option) \<Rightarrow> nat \<Rightarrow> int \<Rightarrow> (bytes \<times> int) list
     \<Rightarrow> sftp_call list \<times> nat \<times> sftp_error option" where
  "flush_loop rp k fd [] = ([], k, None)"
| "flush_loop rp k fd ((buffer, position) # rest) =
     (case writeToDisk rp k fd (fst (coalesce buffer position rest))
             (length (fst (coalesce buffer position rest))) position of
        (calls, k', Some e) \<Rightarrow> (calls, k', Some e)
      | (calls, k', None) \<Rightarrow>
          (case flush_loop rp k' fd (snd (coalesce buffer position rest)) of
             (calls2, k'', r) \<Rightarrow> (calls @ calls2, k'', r)))"
  by pat_completeness auto
termination
  by (relation "measure (\<lambda>(rp, k, fd, recs). length recs)")
     (auto simp: coalesce_length le_imp_less_Suc)

definition fuse_flush ::
  "host_env \<Rightarrow> (nat \<Rightarrow> sftp_error option) \<Rightarrow> string \<Rightarrow> int \<Rightarrow> adapter
     \<Rightarrow> adapter \<times> sftp_call list \<times> fuse_cb" where
  "fuse_flush env rp path fd s =
     (if state s \<noteq> Ready then (s, [], Done (Fuse_ENOTCONN env))
      else case data s fd of
        None \<Rightarrow> (s, [], Done 0)
      | Some recs \<Rightarrow>
          (let s' = clearCache env path (s\<lparr> data := (data s)(fd := None) \<rparr>)
           in case flush_loop rp 0 fd recs of
                (calls, k, None) \<Rightarrow> (s', calls, Done 0)
              | (calls, k, Some err) \<Rightarrow>
                  (if err_errno err = Some (- 2) then (s', calls, Done 0)
                   else (s', calls, Done (fuseError env (Some err))))))"

definition fuse_fsync ::
  "host_env \<Rightarrow> (nat \<Rightarrow> sftp_error option) \<Rightarrow> string \<Rightarrow> bool \<Rightarrow> int \<Rightarrow> adapter
     \<Rightarrow> adapter \<times> sftp_call list \<times> fuse_cb" where
  "fuse_fsync env rp path dataSync fd s = fuse_flush env rp path fd s"

text \<open>
  \<open>write\<close>. When the flush it triggers reports a status other than 0, that number is
  handed to \<open>fuseError(cb)\<close> as if it were an error object; it has neither
  \<open>description\<close> nor \<open>code\<close>, so \<open>getErrno\<close> answers \<open>Fuse.ENOSYS\<close>.
\<close>

definition fuse_write ::
  "host_env \<Rightarrow> (nat \<Rightarrow> sftp_error option) \<Rightarrow> string \<Rightarrow> int \<Rightarrow> bytes \<Rightarrow> nat \<Rightarrow> int
     \<Rightarrow> adapter \<Rightarrow> adapter \<times> sftp_call list \<times> fuse_cb" where
  "fuse_write env rp path fd buffer len position s =
     (if state s \<noteq> Ready then (s, [], Done (Fuse_ENOTCONN env))
      else
        let s1 = s\<lparr> readTracking := map_option (\<lambda>c. cache_delete c path) (readTracking s) \<rparr>;
            s2 = clearCache env path s1;
            record' = (take len buffer, position)
        in case data s2 fd of
             None \<Rightarrow> (s2\<lparr> data := (data s2)(fd \<mapsto> [record']) \<rparr>, [], Done (int len))
           | Some recs \<Rightarrow>
               (let s3 = s2\<lparr> data := (data s2)(fd \<mapsto> recs @ [record']) \<rparr>
                in if length (recs @ [record']) > 50 then
                     (case fuse_flush env rp path fd s3 of
                        (s4, calls, r) \<Rightarrow>
                          (s4, calls,
                           case r of
                             Done err \<Rightarrow> Done (if err \<noteq> 0 then Fuse_ENOSYS env else int len)
                           | other \<Rightarrow> other))
                   else (s3, [], Done (int len))))"

definition fuse_release ::
  "host_env \<Rightarrow> string \<Rightarrow> int \<Rightarrow> adapter \<Rightarrow> adapter \<times> sftp_call list \<times> fuse_cb" where
  "fuse_release env path fd s =
     (if state s \<noteq> Ready then (s, [], Done (Fuse_ENOTCONN env))
      else (s, [CallClose fd], Later))"

subsection \<open>Operations that change the remote tree\<close>

datatype open_flags = FlagsNumber int | FlagsString string

definition RenameFlags_OVERWRITE :: int where
  "RenameFlags_OVERWRITE = 1"

definition fuse_truncate ::
  "host_env \<Rightarrow> string \<Rightarrow> int \<Rightarrow> adapter \<Rightarrow> adapter \<times> sftp_call list \<times> fuse_cb" where
  "fuse_truncate env path sz s =
     (if state s \<noteq> Ready then (s, [], Done (Fuse_ENOTCONN env))
      else (clearCache env path s, [CallSetstat path (SetSize sz)], Later))"

definition fuse_ftruncate ::
  "host_env \<Rightarrow> string \<Rightarrow> int \<Rightarrow> int \<Rightarrow> adapter \<Rightarrow> adapter \<times> sftp_call list \<times> fuse_cb" where
  "fuse_ftruncate env path fd sz s =
     (if state s \<noteq> Ready then (s, [], Done (Fuse_ENOTCONN env))
      else fuse_truncate env path sz s)"

definition fuse_utimens ::
  "host_env \<Rightarrow> string \<Rightarrow> int \<Rightarrow> int \<Rightarrow> adapter \<Rightarrow> adapter \<times> sftp_call list \<times> fuse_cb" where
  "fuse_utimens env path atime mtime s =
     (if state s = Ready
      then (clearCache env path s, [CallSetstat path (SetTimes atime mtime)], Later)
      else (clearCache env path s, [], Raised))"

definition fuse_chmod ::
  "host_env \<Rightarrow> string \<Rightarrow> int \<Rightarrow> adapter \<Rightarrow> adapter \<times> sftp_call list \<times> fuse_cb" where
  "fuse_chmod env path mode s =
     (if state s \<noteq> Ready then (s, [], Done (Fuse_ENOTCONN env))
      else (s\<lparr> attrCache := map_option (\<lambda>c. cache_delete c path) (attrCache s) \<rparr>,
            [CallSetstat path (SetMode mode)], Later))"

definition fuse_open ::
  "host_env \<Rightarrow> nat \<Rightarrow> string \<Rightarrow> open_flags \<Rightarrow> adapter \<Rightarrow> adapter \<times> sftp_call list \<times> fuse_cb" where
  "fuse_open env now path flags s =
     (if state s \<noteq> Ready then (s, [], Done (Fuse_ENOTCONN env))
      else
        let flags' = (case flags of FlagsNumber n \<Rightarrow> convertOpenFlags env n
                      | FlagsString f \<Rightarrow> f)
        in (clearCache env path (trackRead now path s), [CallOpen path flags'], Later))"

definition fuse_create ::
  "host_env \<Rightarrow> nat \<Rightarrow> string \<Rightarrow> int \<Rightarrow> adapter \<Rightarrow> adapter \<times> sftp_call list \<times> fuse_cb" where
  "fuse_create env now path mode s =
     (if state s \<noteq> Ready then (s, [], Done (Fuse_ENOTCONN env))
      else fuse_open env now path (FlagsString ''w'') s)"

definition fuse_unlink ::
  "host_env \<Rightarrow> string \<Rightarrow> adapter \<Rightarrow> adapter \<times> sftp_call list \<times> fuse_cb" where
  "fuse_unlink env path s =
     (if state s \<noteq> Ready then (s, [], Done (Fuse_ENOTCONN env))
      else (clearCache env path s, [CallUnlink path], Later))"

text \<open>The two extra \<open>this.dirCache?.delete(dirname(...))\<close> of \<open>rename\<close> and \<open>link\<close>.\<close>

definition delete_parents :: "host_env \<Rightarrow> string \<Rightarrow> string \<Rightarrow> adapter \<Rightarrow> adapter" where
  "delete_parents env src dest s =
     s\<lparr> dirCache :=
          map_option (\<lambda>d. cache_delete (cache_delete d (dirname env src)) (dirname env dest))
            (dirCache s) \<rparr>"

definition fuse_rename ::
  "host_env \<Rightarrow> string \<Rightarrow> string \<Rightarrow> adapter \<Rightarrow> adapter \<times> sftp_call list \<times> fuse_cb" where
  "fuse_rename env src dest s =
     (if state s \<noteq> Ready then (s, [], Done (Fuse_ENOTCONN env))
      else (delete_parents env src dest (clearCache env dest (clearCache env src s)),
            [CallRename src dest RenameFlags_OVERWRITE], Later))"

definition fuse_link ::
  "host_env \<Rightarrow> string \<Rightarrow> string \<Rightarrow> adapter \<Rightarrow> adapter \<times> sftp_call list \<times> fuse_cb" where
  "fuse_link env src dest s =
     (if state s \<noteq> Ready then (s, [], Done (Fuse_ENOTCONN env))
      else (delete_parents env src dest (clearCache env dest (clearCache env src s)),
            [CallLink src dest], Later))"

definition fuse_symlink ::
  "host_env \<Rightarrow> string \<Rightarrow> string \<Rightarrow> adapter \<Rightarrow> adapter \<times> sftp_call list \<times> fuse_cb" where
  "fuse_symlink env src dest s =
     (if state s \<noteq> Ready then (s, [], Done (Fuse_ENOTCONN env))
      else (clearCache env dest (clearCache env src s), [CallSymlink src dest], Later))"

definition fuse_mkdir ::
  "host_env \<Rightarrow> string \<Rightarrow> int \<Rightarrow> adapter \<Rightarrow> adapter \<times> sftp_call list \<times> fuse_cb" where
  "fuse_mkdir env path mode s =
     (if state s \<noteq> Ready then (s, [], Done (Fuse_ENOTCONN env))
      else (clearCache env path s, [CallMkdir path mode], Later))"

definition fuse_rmdir ::
  "host_env \<Rightarrow> string \<Rightarrow> adapter \<Rightarrow> adapter \<times> sftp_call list \<times> fuse_cb" where
  "fuse_rmdir env path s =
     (if state s \<noteq> Ready then (s, [], Done (Fuse_ENOTCONN env))
      else (clearCache env path s, [CallRmdir path], Later))"

subsection \<open>Symbolic links\<close>

text \<open>
  \<open>readlink\<close>: answered from the link cache when the cache has the path, else a READLINK
  is issued. \<open>readlink_reply\<close> is the callback given to \<open>this.sftp.readlink\<close>, run with the
  error and the target the client reports (\<open>target\<close> is \<open>None\<close> for \<open>undefined\<close>).
\<close>

definition fuse_readlink ::
  "host_env \<Rightarrow> nat \<Rightarrow> string \<Rightarrow> adapter \<Rightarrow> adapter \<times> sftp_call list \<times> fuse_cb" where
  "fuse_readlink env now path s =
     (if state s \<noteq> Ready then (s, [], Done (Fuse_ENOTCONN env))
      else case linkCache s of
        Some c \<Rightarrow>
          (if cache_has c now path
           then (s, [], DoneLink 0 (case cache_get c now path of Some t \<Rightarrow> t | None \<Rightarrow> None))
           else (s, [CallReadlink path], Later))
      | None \<Rightarrow> (s, [CallReadlink path], Later))"

definition readlink_reply ::
  "host_env \<Rightarrow> nat \<Rightarrow> string \<Rightarrow> sftp_error option \<Rightarrow> string option \<Rightarrow> adapter
     \<Rightarrow> adapter \<times> fuse_cb" where
  "readlink_reply env now path err target s =
     (let s' = s\<lparr> linkCache := map_option (\<lambda>c. cache_set c now path target) (linkCache s) \<rparr>
      in case err of
           Some e \<Rightarrow> (s', Done (getErrno env e))
         | None \<Rightarrow> (s', DoneLink 0 target))"

subsection \<open>The operations as one step function\<close>

datatype fuse_op =
    OpWrite string int bytes nat int
  | OpTruncate string int
  | OpFtruncate string int int
  | OpUtimens string int int
  | OpChmod string int
  | OpOpen string open_flags
  | OpCreate string int
  | OpUnlink string
  | OpRename string string
  | OpLink string string
  | OpSymlink string string
  | OpMkdir string int
  | OpRmdir string
  | OpFlush string int
  | OpFsync string bool int
  | OpRelease string int
  | OpReadlink string

fun fuse_apply ::
  "host_env \<Rightarrow> (nat \<Rightarrow> sftp_error option) \<Rightarrow> nat \<Rightarrow> fuse_op \<Rightarrow> adapter
     \<Rightarrow> adapter \<times> sftp_call list \<times> fuse_cb" where
  "fuse_apply env rp now (OpWrite path fd buffer len position) s =
     fuse_write env rp path fd buffer len position s"
| "fuse_apply env rp now (OpTruncate path sz) s = fuse_truncate env path sz s"
| "fuse_apply env rp now (OpFtruncate path fd sz) s = fuse_ftruncate env path fd sz s"
| "fuse_apply env rp now (OpUtimens path atime mtime) s = fuse_utimens env path atime mtime s"
| "fuse_apply env rp now (OpChmod path mode) s = fuse_chmod env path mode s"
| "fuse_apply env rp now (OpOpen path flags) s = fuse_open env now path flags s"
| "fuse_apply env rp now (OpCreate path mode) s = fuse_create env now path mode s"
| "fuse_apply env rp now (OpUnlink path) s = fuse_unlink env path s"
| "fuse_apply env rp now (OpRename src dest) s = fuse_rename env src dest s"
| "fuse_apply env rp now (OpLink src dest) s = fuse_link env src dest s"
| "fuse_apply env rp now (OpSymlink src dest) s = fuse_symlink env src dest s"
| "fuse_apply env rp now (OpMkdir path mode) s = fuse_mkdir env path mode s"
| "fuse_apply env rp now (OpRmdir path) s = fuse_rmdir env path s"
| "fuse_apply env rp now (OpFlush path fd) s = fuse_flush env rp path fd s"
| "fuse_apply env rp now (OpFsync path dataSync fd) s = fuse_fsync env rp path dataSync fd s"
| "fuse_apply env rp now (OpRelease path fd) s = fuse_release env path fd s"
| "fuse_apply env rp now (OpReadlink path) s = fuse_readlink env now path s"

text \<open>
  The paths an operation changes on the server. \<open>chmod\<close>, \<open>flush\<close>, \<open>fsync\<close>,
  \<open>release\<close> and \<open>readlink\<close> are left out: \<open>chmod\<close> deletes the attribute entry only,
  \<open>flush\<close> clears the caches only when records are buffered, the last two clear
  nothing.
\<close>

fun mutated_paths :: "fuse_op \<Rightarrow> string list" where
  "mutated_paths (OpWrite path fd buffer len position) = [path]"
| "mutated_paths (OpTruncate path sz) = [path]"
| "mutated_paths (OpFtruncate path fd sz) = [path]"
| "mutated_paths (OpUtimens path atime mtime) = [path]"
| "mutated_paths (OpOpen path flags) = [path]"
| "mutated_paths (OpCreate path mode) = [path]"
| "mutated_paths (OpUnlink path) = [path]"
| "mutated_paths (OpRename src dest) = [src, dest]"
| "mutated_paths (OpLink src dest) = [src, dest]"
| "mutated_paths (OpSymlink src dest) = [src, dest]"
| "mutated_paths (OpMkdir path mode) = [path]"
| "mutated_paths (OpRmdir path) = [path]"
| "mutated_paths _ = []"

text \<open>The entry a cache holds for a path, expired or not; \<open>None\<close> when there is none.\<close>

definition attr_entry_of :: "adapter \<Rightarrow> string \<Rightarrow> (attr_entry \<times> nat) option" where
  "attr_entry_of s p = (case attrCache s of None \<Rightarrow> None | Some c \<Rightarrow> entries c p)"

definition dir_entry_of :: "adapter \<Rightarrow> string \<Rightarrow> (string list \<times> nat) option" where
  "dir_entry_of s p = (case dirCache s of None \<Rightarrow> None | Some c \<Rightarrow> entries c p)"

definition link_entry_of :: "adapter \<Rightarrow> string \<Rightarrow> (string option \<times> nat) option" where
  "link_entry_of s p = (case linkCache s of None \<Rightarrow> None | Some c \<Rightarrow> entries c p)"

section \<open>Paths of the \<open>node:path\<close> module\<close>

text \<open>
  \<open>fs-safe.ts\<close> and \<open>sftp-fuse.ts\<close> use \<open>normalize\<close>, \<open>join\<close>, \<open>isAbsolute\<close> and
  \<open>dirname\<close> of Node's \<open>path\<close> module, in its POSIX form. The functions below follow
  the algorithm of that module on the segments between the separators: empty segments
  and \<open>.\<close> are dropped, \<open>..\<close> removes the segment before it (or is kept, in a relative
  path, when there is none to remove), a trailing separator is kept.
\<close>

fun split_path :: "string \<Rightarrow> string list" where
  "split_path [] = [[]]"
| "split_path (c # cs) =
     (if c = CHR ''/'' then [] # split_path cs
      else (case split_path cs of seg # segs \<Rightarrow> (c # seg) # segs | [] \<Rightarrow> [[c]]))"

fun join_segments :: "string list \<Rightarrow> string" where
  "join_segments [] = []"
| "join_segments [seg] = seg"
| "join_segments (seg # segs) = seg @ ''/'' @ join_segments segs"

fun normalize_segments :: "bool \<Rightarrow> string list \<Rightarrow> string list \<Rightarrow> string list" where
  "normalize_segments allowAboveRoot res [] = res"
| "normalize_segments allowAboveRoot res (seg # segs) =
     (if seg = [] \<or> seg = ''.'' then normalize_segments allowAboveRoot res segs
      else if seg = ''..'' then
        (if res \<noteq> [] \<and> last res \<noteq> ''..''
         then normalize_segments allowAboveRoot (butlast res) segs
         else if allowAboveRoot then normalize_segments allowAboveRoot (res @ [''..'']) segs
         else normalize_segments allowAboveRoot res segs)
      else normalize_segments allowAboveRoot (res @ [seg]) segs)"

definition isAbsolute :: "string \<Rightarrow> bool" where
  "isAbsolute path = (path \<noteq> [] \<and> hd path = CHR ''/'')"

definition normalize :: "string \<Rightarrow> string" where
  "normalize path =
     (if path = [] then ''.''
      else
        let trailingSeparator = (last path = CHR ''/'');
            p = join_segments (normalize_segments (\<not> isAbsolute path) [] (split_path path))
        in if p = [] then
             (if isAbsolute path then ''/'' else if trailingSeparator then ''./'' else ''.'')
           else
             (let p' = (if trailingSeparator then p @ ''/'' else p)
              in if isAbsolute path then ''/'' @ p' else p'))"

text \<open>\<open>join\<close> of two arguments: the non-empty ones, separated by \<open>/\<close>, normalized.\<close>

definition path_join :: "string \<Rightarrow> string \<Rightarrow> string" where
  "path_join a b =
     (if a = [] \<and> b = [] then ''.''
      else if a = [] then normalize b
      else if b = [] then normalize a
      else normalize (a @ ''/'' @ b))"

text \<open>
  \<open>dirname\<close>: trailing separators and the last segment are cut off; the scan stops
  before the first character, which decides between \<open>/\<close> and \<open>.\<close> when nothing is left.
\<close>

definition posix_dirname :: "string \<Rightarrow> string" where
  "posix_dirname path =
     (if path = [] then ''.''
      else
        let r = dropWhile (\<lambda>c. c \<noteq> CHR ''/'') (dropWhile (\<lambda>c. c = CHR ''/'') (rev (tl path)))
        in if r = [] then (if isAbsolute path then ''/'' else ''.'')
           else if isAbsolute path \<and> length r = 1 then ''//''
           else take (length r) path)"

text \<open>
  A segment that normalization keeps as it is: not empty, not \<open>.\<close>, not \<open>..\<close>, and
  without a separator.
\<close>

definition plain_segment :: "string \<Rightarrow> bool" where
  "plain_segment seg = (seg \<noteq> [] \<and> seg \<noteq> ''.'' \<and> seg \<noteq> ''..'' \<and> CHR ''/'' \<notin> set seg)"

text \<open>
  The shape of a normalized absolute path: the separator, the segments joined, and a
  trailing separator when there are segments and one is asked for.
\<close>

definition abs_form :: "string list \<Rightarrow> bool \<Rightarrow> string" where
  "abs_form segs trailing =
     CHR ''/'' # (if segs = [] then [] else if trailing then join_segments segs @ ''/''
                  else join_segments segs)"

section \<open>Safe filesystem wrapper (fs-safe.ts)\<close>

record stats =
  st_size :: "int option"
  st_uid :: "int option"
  st_gid :: "int option"
  st_mode :: "int option"
  st_atime :: "int option"
  st_mtime :: "int option"

text \<open>
  An action deferred on a busy handle, or run at once on a free one, and the calls on the
  underlying filesystem. A real handle is \<open>None\<close> while it is \<open>null\<close>.
\<close>

datatype action =
    ActWrite bytes int int int
  | ActFsetstat stats
  | ActFcopyFrom
  | ActFcopyTo

datatype fs_call =
    FsOpen string open_flags stats
  | FsWrite "nat option" bytes int int int
  | FsSetstat string stats
  | FsFsetstat "nat option" stats
  | FsUnlink string
  | FsMkdir string stats
  | FsRmdir string
  | FsRename string string int
  | FsSymlink string string
  | FsLink string string
  | FsRealpath string

record handle_info =
  hi_safe :: nat
  hi_real :: "nat option"
  hi_busy :: bool
  hi_actions :: "action list"

text \<open>
  \<open>SafeFilesystem\<close>. \<open>sf_calls\<close> is the sequence of calls made on the underlying
  filesystem \<open>this.fs\<close>: the wrapper touches it in no other way.
\<close>

record safe_fs =
  sf_root :: string
  sf_readOnly :: bool
  sf_hideUidGid :: bool
  sf_isWindows :: bool
  sf_handles :: "nat \<Rightarrow> handle_info option"
  sf_nextHandle :: nat
  sf_calls :: "fs_call list"

definition MAX_HANDLE_COUNT :: nat where
  "MAX_HANDLE_COUNT = 1024"

text \<open>The constructor.\<close>

definition new_safe_fs :: "bool \<Rightarrow> string \<Rightarrow> bool \<Rightarrow> bool \<Rightarrow> safe_fs" where
  "new_safe_fs isWindows virtualRootPath readOnly hideUidGid =
     \<lparr> sf_root = normalize virtualRootPath, sf_readOnly = readOnly,
       sf_hideUidGid = hideUidGid, sf_isWindows = isWindows,
       sf_handles = (\<lambda>h. None), sf_nextHandle = 1, sf_calls = [] \<rparr>"

text \<open>
  What an operation of the wrapper comes to at once: it fails with the named error, it
  has called the underlying filesystem (or acquired the handles, for \<open>fcopy\<close>) and the
  callback is pending, or its action waits in the queue of a busy handle.
\<close>

datatype safe_result = Failed string | Pending | Queued

text \<open>
  Modelled from the spec: \<open>FileUtil.fail\<close> of \<open>fs-misc.ts\<close>, which is not among the
  sources. By the specification the operation fails with the named error (EROFS,
  ENFILE) at once; the callback receives an error that carries the name.
\<close>

definition FileUtil_fail :: "string \<Rightarrow> safe_fs \<Rightarrow> safe_fs \<times> safe_result" where
  "FileUtil_fail message s = (s, Failed message)"

subsection \<open>Virtual and real paths\<close>

text \<open>The loop of \<open>toVirtualPath\<close>, on what is left of the root and of the full path.\<close>

fun strip_root :: "string \<Rightarrow> string \<Rightarrow> string" where
  "strip_root [] fullPath = fullPath"
| "strip_root (r # rs) [] = ''/''"
| "strip_root (r # rs) (f # fs) = (if r \<noteq> f then ''/'' else strip_root rs fs)"

definition toVirtualPath :: "safe_fs \<Rightarrow> string \<Rightarrow> string" where
  "toVirtualPath s fullPath =
     (let path = strip_root (sf_root s) fullPath;
          path' = (if sf_isWindows s
                   then map (\<lambda>c. if c = CHR 0x5C then CHR ''/'' else c) path else path)
      in if length path' = 0 then ''/'' else path')"

definition toRealPath :: "safe_fs \<Rightarrow> string \<Rightarrow> string" where
  "toRealPath s path = path_join (sf_root s) (path_join ''/'' path)"

definition isReadOnly :: "safe_fs \<Rightarrow> bool" where
  "isReadOnly s = (\<not> (sf_readOnly s = False))"

subsection \<open>Handles\<close>

fun createHandleInfo_loop :: "nat \<Rightarrow> safe_fs \<Rightarrow> safe_fs \<times> handle_info option" where
  "createHandleInfo_loop 0 s = (s, None)"
| "createHandleInfo_loop (Suc count) s =
     (let safeHandle = sf_nextHandle s;
          s1 = s\<lparr> sf_nextHandle := safeHandle mod MAX_HANDLE_COUNT + 1 \<rparr>
      in case sf_handles s1 safeHandle of
           None \<Rightarrow>
             (let info = \<lparr> hi_safe = safeHandle, hi_real = None, hi_busy = False,
                           hi_actions = [] \<rparr>
              in (s1\<lparr> sf_handles := (sf_handles s1)(safeHandle \<mapsto> info) \<rparr>, Some info))
         | Some _ \<Rightarrow> createHandleInfo_loop count s1)"

definition createHandleInfo :: "safe_fs \<Rightarrow> safe_fs \<times> handle_info option" where
  "createHandleInfo s = createHandleInfo_loop MAX_HANDLE_COUNT s"

text \<open>What an action does on the underlying filesystem when it runs.\<close>

fun run_action :: "action \<Rightarrow> nat option \<Rightarrow> fs_call list" where
  "run_action (ActWrite buffer offset len position) real = [FsWrite real buffer offset len position]"
| "run_action (ActFsetstat attrs) real = [FsFsetstat real attrs]"
| "run_action ActFcopyFrom real = []"
| "run_action ActFcopyTo real = []"

text \<open>
  \<open>_execute\<close>: on a free handle the action runs at once and the handle becomes busy; on
  a busy handle it is queued.
\<close>

definition safe_execute :: "nat \<Rightarrow> action \<Rightarrow> safe_fs \<Rightarrow> safe_fs \<times> safe_result" where
  "safe_execute safeHandle act s =
     (case sf_handles s safeHandle of
        None \<Rightarrow> FileUtil_fail ''Invalid handle'' s
      | Some info \<Rightarrow>
          if \<not> hi_busy info
          then (s\<lparr> sf_handles := (sf_handles s)(safeHandle \<mapsto> info\<lparr> hi_busy := True \<rparr>),
                   sf_calls := sf_calls s @ run_action act (hi_real info) \<rparr>, Pending)
          else (s\<lparr> sf_handles := (sf_handles s)(safeHandle \<mapsto>
                      info\<lparr> hi_actions := hi_actions info @ [act] \<rparr>) \<rparr>, Queued))"

subsection \<open>Operations that change the filesystem\<close>

text \<open>\<open>flags != "r"\<close>: a number is never loosely equal to the string \<open>r\<close>.\<close>

definition flags_not_r :: "open_flags \<Rightarrow> bool" where
  "flags_not_r flags = (case flags of FlagsString f \<Rightarrow> f \<noteq> ''r'' | FlagsNumber n \<Rightarrow> True)"

definition call_fs :: "fs_call \<Rightarrow> safe_fs \<Rightarrow> safe_fs \<times> safe_result" where
  "call_fs call s = (s\<lparr> sf_calls := sf_calls s @ [call] \<rparr>, Pending)"

definition hide_ids :: "safe_fs \<Rightarrow> stats \<Rightarrow> stats" where
  "hide_ids s attrs = (if sf_hideUidGid s then attrs\<lparr> st_uid := None, st_gid := None \<rparr> else attrs)"

definition safe_open :: "string \<Rightarrow> open_flags \<Rightarrow> stats \<Rightarrow> safe_fs \<Rightarrow> safe_fs \<times> safe_result" where
  "safe_open path flags attrs s =
     (if isReadOnly s \<and> flags_not_r flags then FileUtil_fail ''EROFS'' s
      else case createHandleInfo s of
             (s1, None) \<Rightarrow> FileUtil_fail ''ENFILE'' s1
           | (s1, Some handleInfo) \<Rightarrow> call_fs (FsOpen (toRealPath s1 path) flags attrs) s1)"

definition safe_write ::
  "nat \<Rightarrow> bytes \<Rightarrow> int \<Rightarrow> int \<Rightarrow> int \<Rightarrow> safe_fs \<Rightarrow> safe_fs \<times> safe_result" where
  "safe_write handle buffer offset len position s =
     (if isReadOnly s then FileUtil_fail ''EROFS'' s
      else safe_execute handle (ActWrite buffer offset len position) s)"

definition safe_setstat :: "string \<Rightarrow> stats \<Rightarrow> safe_fs \<Rightarrow> safe_fs \<times> safe_result" where
  "safe_setstat path attrs s =
     (if isReadOnly s then FileUtil_fail ''EROFS'' s
      else call_fs (FsSetstat (toRealPath s path) (hide_ids s attrs)) s)"

definition safe_fsetstat :: "nat \<Rightarrow> stats \<Rightarrow> safe_fs \<Rightarrow> safe_fs \<times> safe_result" where
  "safe_fsetstat handle attrs s =
     (if isReadOnly s then FileUtil_fail ''EROFS'' s
      else safe_execute handle (ActFsetstat (hide_ids s attrs)) s)"

definition safe_unlink :: "string \<Rightarrow> safe_fs \<Rightarrow> safe_fs \<times> safe_result" where
  "safe_unlink path s =
     (if isReadOnly s then FileUtil_fail ''EROFS'' s
      else call_fs (FsUnlink (toRealPath s path)) s)"

definition safe_mkdir :: "string \<Rightarrow> stats \<Rightarrow> safe_fs \<Rightarrow> safe_fs \<times> safe_result" where
  "safe_mkdir path attrs s =
     (if isReadOnly s then FileUtil_fail ''EROFS'' s
      else call_fs (FsMkdir (toRealPath s path) attrs) s)"

definition safe_rmdir :: "string \<Rightarrow> safe_fs \<Rightarrow> safe_fs \<times> safe_result" where
  "safe_rmdir path s =
     (if isReadOnly s then FileUtil_fail ''EROFS'' s
      else call_fs (FsRmdir (toRealPath s path)) s)"

definition safe_rename :: "string \<Rightarrow> string \<Rightarrow> int \<Rightarrow> safe_fs \<Rightarrow> safe_fs \<times> safe_result" where
  "safe_rename oldPath newPath flags s =
     (if isReadOnly s then FileUtil_fail ''EROFS'' s
      else call_fs (FsRename (toRealPath s oldPath) (toRealPath s newPath) flags) s)"

definition safe_symlink :: "string \<Rightarrow> string \<Rightarrow> safe_fs \<Rightarrow> safe_fs \<times> safe_result" where
  "safe_symlink oldPath newPath s =
     (if isReadOnly s then FileUtil_fail ''EROFS'' s
      else call_fs (FsSymlink (toRealPath s oldPath)
                      (if isAbsolute newPath then toRealPath s newPath else newPath)) s)"

definition safe_link :: "string \<Rightarrow> string \<Rightarrow> safe_fs \<Rightarrow> safe_fs \<times> safe_result" where
  "safe_link oldPath newPath s =
     (if isReadOnly s then FileUtil_fail ''EROFS'' s
      else call_fs (FsLink (toRealPath s oldPath) (toRealPath s newPath)) s)"

text \<open>
  \<open>fcopy\<close>: after the read-only guard the two handles are acquired through
  \<open>_execute\<close>, once when they are the same. The copying that starts when both are held
  (the native \<open>fcopy\<close> or the read and write loop) is not modelled.
\<close>

definition safe_fcopy ::
  "nat \<Rightarrow> int \<Rightarrow> int \<Rightarrow> nat \<Rightarrow> int \<Rightarrow> safe_fs \<Rightarrow> safe_fs \<times> safe_result" where
  "safe_fcopy fromHandle fromPosition len toHandle' toPosition s =
     (if isReadOnly s then FileUtil_fail ''EROFS'' s
      else case safe_execute fromHandle ActFcopyFrom s of
             (s1, Failed e) \<Rightarrow> (s1, Failed e)
           | (s1, r1) \<Rightarrow>
               if fromHandle = toHandle' then (s1, r1)
               else (case safe_execute toHandle' ActFcopyTo s1 of
                       (s2, Failed e) \<Rightarrow> (s2, Failed e)
                     | (s2, r2) \<Rightarrow> (s2, if r1 = Queued then Queued else r2)))"

text \<open>\<open>realpath\<close>, and \<open>processCallbackPath\<close> on the path the underlying filesystem returns.\<close>

definition safe_realpath :: "string \<Rightarrow> safe_fs \<Rightarrow> safe_fs \<times> safe_result" where
  "safe_realpath path s = call_fs (FsRealpath (toRealPath s path)) s"

definition processCallbackPath :: "safe_fs \<Rightarrow> string option \<Rightarrow> string option \<Rightarrow> string + string" where
  "processCallbackPath s err path =
     (case err of Some e \<Rightarrow> Inl e
      | None \<Rightarrow> (case path of None \<Rightarrow> Inl ''path must be set''
                 | Some p \<Rightarrow> Inr (toVirtualPath s p)))"

datatype safe_op =
    SOpen string open_flags stats
  | SWrite nat bytes int int int
  | SSetstat string stats
  | SFsetstat nat stats
  | SUnlink string
  | SMkdir string stats
  | SRmdir string
  | SRename string string int
  | SSymlink string string
  | SLink string string
  | SFcopy nat int int nat int
  | SRealpath string

fun safe_apply :: "safe_op \<Rightarrow> safe_fs \<Rightarrow> safe_fs \<times> safe_result" where
  "safe_apply (SOpen path flags attrs) s = safe_open path flags attrs s"
| "safe_apply (SWrite handle buffer offset len position) s =
     safe_write handle buffer offset len position s"
| "safe_apply (SSetstat path attrs) s = safe_setstat path attrs s"
| "safe_apply (SFsetstat handle attrs) s = safe_fsetstat handle attrs s"
| "safe_apply (SUnlink path) s = safe_unlink path s"
| "safe_apply (SMkdir path attrs) s = safe_mkdir path attrs s"
| "safe_apply (SRmdir path) s = safe_rmdir path s"
| "safe_apply (SRename oldPath newPath flags) s = safe_rename oldPath newPath flags s"
| "safe_apply (SSymlink oldPath newPath) s = safe_symlink oldPath newPath s"
| "safe_apply (SLink oldPath newPath) s = safe_link oldPath newPath s"
| "safe_apply (SFcopy fromHandle fromPosition len toHandle' toPosition) s =
     safe_fcopy fromHandle fromPosition len toHandle' toPosition s"
| "safe_apply (SRealpath path) s = safe_realpath path s"

text \<open>
  The operations that the read-only mode blocks: all of the above but \<open>realpath\<close>, and
  \<open>open\<close> only with flags other than \<open>r\<close>.
\<close>

fun blocked_when_readOnly :: "safe_op \<Rightarrow> bool" where
  "blocked_when_readOnly (SOpen path flags attrs) = flags_not_r flags"
| "blocked_when_readOnly (SRealpath path) = False"
| "blocked_when_readOnly _ = True"

section \<open>Write coalescing, in the words of the specification\<close>

text \<open>
  Adjacent contiguous records, where the next record's position equals the prior
  record's position plus its length, are concatenated into one buffer.
\<close>

fun merge_adjacent :: "(bytes \<times> int) list \<Rightarrow> (bytes \<times> int) list" where
  "merge_adjacent [] = []"
| "merge_adjacent [r] = [r]"
| "merge_adjacent ((b1, p1) # (b2, p2) # rest) =
     (if p2 = p1 + int (length b1)
      then (case merge_adjacent ((b2, p2) # rest) of
              (b, p) # groups \<Rightarrow> (b1 @ b, p1) # groups
            | [] \<Rightarrow> [(b1, p1)])
      else (b1, p1) # merge_adjacent ((b2, p2) # rest))"

text \<open>The writes of one buffer when the server accepts every one of them.\<close>

definition chunk_writes :: "int \<Rightarrow> bytes \<Rightarrow> int \<Rightarrow> sftp_call list" where
  "chunk_writes fd buffer position =
     fst (writeToDisk (\<lambda>k. None) 0 fd buffer (length buffer) position)"




section \<open>Writes and their replies\<close>

text \<open>
  A list of writes sent one after the other, where the server answers the \<open>k\<close>-th
  request with \<open>rp k\<close>: the writes up to the first that fails, that one included, the
  number of replies used, and the error.
\<close>

fun answered ::
  "(nat \<Rightarrow> sftp_error option) \<Rightarrow> nat \<Rightarrow> sftp_call list
     \<Rightarrow> sftp_call list \<times> nat \<times> sftp_error option" where
  "answered rp k [] = ([], k, None)"
| "answered rp k (c # cs) =
     (case rp k of
        Some e \<Rightarrow> ([c], Suc k, Some e)
      | None \<Rightarrow> (case answered rp (Suc k) cs of (calls, k', r) \<Rightarrow> (c # calls, k', r)))"

section \<open>Examples\<close>

text \<open>
  An instance of the host libraries for the examples: Linux error numbers for the table
  of the FUSE binding, \<open>dirname\<close> of the \<open>path\<close> module, and a flag conversion that
  always answers \<open>r\<close>.
\<close>

definition linux_env :: host_env where
  "linux_env =
     \<lparr> Fuse_lookup = map_of [(''ENOENT'', - 2), (''EIO'', - 5), (''EACCES'', - 13),
                              (''ENOSYS'', - 38), (''ENOTCONN'', - 107), (''ESHUTDOWN'', - 108)],
       Fuse_ENOTCONN = - 107, Fuse_ENOSYS = - 38,
       dirname = posix_dirname, convertOpenFlags = (\<lambda>n. ''r'') \<rparr>"

text \<open>
  A connected adapter with 20 s caches that know the file \<open>/d/f\<close>: its attributes, the
  listing of \<open>/d\<close>, and a link target. Each entry expires at 20000 ms.
\<close>

definition example_adapter :: adapter where
  "example_adapter =
     \<lparr> state = Ready, data = (\<lambda>fd. None),
       attrCache = Some \<lparr> ttl = 20000, entries = (\<lambda>k. None)(''/d/f'' \<mapsto>
         (AttrEntry \<lparr> attr_mtime = 0, attr_size = 3, attr_mode = 420 \<rparr>, 20000)) \<rparr>,
       dirCache = Some \<lparr> ttl = 20000, entries = (\<lambda>k. None)(''/d'' \<mapsto> ([''f''], 20000)) \<rparr>,
       linkCache = Some \<lparr> ttl = 20000, entries = (\<lambda>k. None)(''/d/f'' \<mapsto> (Some ''target'', 20000)) \<rparr>,
       readTracking = None, readTrackingModified = 0 \<rparr>"

text \<open>The same adapter after \<open>write(fd 3, "hello", 0)\<close> and \<open>write(fd 3, " world", 5)\<close>.\<close>

definition buffered_adapter :: adapter where
  "buffered_adapter =
     example_adapter\<lparr> data := (\<lambda>fd. None)(3 \<mapsto>
       [([104, 101, 108, 108, 111], 0), ([32, 119, 111, 114, 108, 100], 5)]) \<rparr>"

text \<open>The adapter after \<open>write(fd 3, "hello", 0)\<close> and \<open>write(fd 3, "world", 100)\<close>.\<close>

definition gapped_adapter :: adapter where
  "gapped_adapter =
     example_adapter\<lparr> data := (\<lambda>fd. None)(3 \<mapsto>
       [([104, 101, 108, 108, 111], 0), ([119, 111, 114, 108, 100], 100)]) \<rparr>"

section \<open>Close codes and channel establishment\<close>




section \<open>Evaluating the packet reader\<close>

lemma ToInt32_id: "- (2 ^ 31) \<le> n \<Longrightarrow> n < 2 ^ 31 \<Longrightarrow> ToInt32 n = n"
proof (cases "0 \<le> n")
  case True
  assume "n < 2 ^ 31"
  with True have "n mod 2 ^ 32 = n" by simp
  with True \<open>n < 2 ^ 31\<close> show ?thesis by (simp add: ToInt32_def Let_def)
next
  case False
  assume lo: "- (2 ^ 31) \<le> n"
  have "(n + 2 ^ 32) mod 2 ^ 32 = n + 2 ^ 32"
    using False lo by (intro mod_pos_pos_trivial) simp_all
  then have "n mod 2 ^ 32 = n + 2 ^ 32" by simp
  with False lo show ?thesis by (simp add: ToInt32_def Let_def)
qed

lemma ToInt32_wrap: "ToInt32 (2 ^ 31 - 1 + 1) = - (2 ^ 31)"
  by (simp add: ToInt32_def Let_def)

lemma ToInt32_mod: "ToInt32 n mod 2 ^ 32 = n mod 2 ^ 32"
  by (simp add: ToInt32_def Let_def)


lemma ToInt32_succ: "ToInt32 (ToInt32 a + 1) = ToInt32 (a + 1)"
proof -
  have "(ToInt32 a + 1) mod 2 ^ 32 = (a + 1) mod 2 ^ 32"
    using ToInt32_mod [of a] by (metis mod_add_left_eq)
  then show ?thesis by (simp add: ToInt32_def)
qed

lemma allocate_ids:
  assumes "t \<noteq> PNum INIT" and "c_id c = Some (ToInt32 i)"
  shows "allocate n t c = map (\<lambda>k. Some (ToInt32 (i + int k))) [0..<n]"
  using assms(2)
proof (induction n arbitrary: c i)
  case 0
  then show ?case by simp
next
  case (Suc n)
  have g: "getRequest t c = (c\<lparr> c_id := Some (ToInt32 (i + 1)) \<rparr>,
             Inr \<lparr> pw_type = t, pw_id = Some (ToInt32 i), pw_fields = [] \<rparr>)"
    using assms(1) Suc.prems by (simp add: getRequest_def Let_def ToInt32_succ)
  have "allocate n t (c\<lparr> c_id := Some (ToInt32 (i + 1)) \<rparr>)
          = map (\<lambda>k. Some (ToInt32 (i + 1 + int k))) [0..<n]"
    by (rule Suc.IH) simp
  then have "allocate (Suc n) t c
          = Some (ToInt32 i) # map (\<lambda>k. Some (ToInt32 (i + int (Suc k)))) [0..<n]"
    using g by (simp add: algebra_simps)
  also have "\<dots> = map (\<lambda>k. Some (ToInt32 (i + int k))) (0 # map Suc [0..<n])"
    by (simp add: comp_def)
  also have "0 # map Suc [0..<n] = [0..<Suc n]"
    by (simp add: upt_conv_Cons map_Suc_upt del: upt_Suc)
  finally show ?case .
qed

lemma byte_at_Cons:
  "byte_at (x # xs) i = (if i = 0 then int (x mod 256) else if i < 0 then 0 else byte_at xs (i - 1))"
  by (auto simp: byte_at_def nth_Cons' nat_diff_distrib)

lemma byte_at_Nil: "byte_at [] i = 0"
  by (simp add: byte_at_def)

lemma ToInt32_0: "ToInt32 0 = 0"
  by (simp add: ToInt32_def)

lemma subarray_end: "subarray buf (int (length buf)) (int (length buf)) = []"
  by (simp add: subarray_def)

lemma empty_data_response_ok:
  "zero_length_data (empty_data_response j) \<and> rd_id (empty_data_response j) = Some j"
proof -
  obtain a b c d where i: "int32_bytes j = [a, b, c, d]"
    by (simp add: int32_bytes_def)
  let ?buf = "[0, 0, 0, 9, 103, a, b, c, d, 0, 0, 0, 0] :: bytes"
  have e: "empty_data_response j = \<lparr> rd_buffer = ?buf,
       rd_position = 9, rd_length = 13, rd_type = Some (PNum DATA), rd_id = Some j \<rparr>"
    by (simp add: empty_data_response_def i)
  have u: "readUInt32 (empty_data_response j) = Inr (0, \<lparr> rd_buffer = ?buf,
       rd_position = 13, rd_length = 13, rd_type = Some (PNum DATA), rd_id = Some j \<rparr>)"
    unfolding e by (simp add: readUInt32_def check_def byte_at_Cons ToInt32_0 Let_def)
  have s: "subarray ?buf 13 13 = []"
    using subarray_end [of ?buf] by simp
  have "readData (empty_data_response j) = Inr ([], \<lparr> rd_buffer = ?buf,
       rd_position = 13, rd_length = 13, rd_type = Some (PNum DATA), rd_id = Some j \<rparr>)"
    by (simp add: readData_def u check_def s)
  then show ?thesis
    by (simp add: zero_length_data_def) (simp add: e)
qed

lemma ready_client_simps:
  "c_host ready_client = Some (channel_init (new_channel WebSocketChannelWS False))"
  "c_id ready_client = Some 1"
  "c_requests ready_client k = None"
  "c_maxReadBlockLength ready_client = 1048576"
  "\<not> closed (channel_init (new_channel WebSocketChannelWS False))"
  "host_sent ready_client = []"
  by (simp_all add: ready_client_def new_client_def channel_init_def new_channel_def
      MAX_READ_BLOCK_LENGTH_def host_sent_def)

section \<open>Request ids\<close>

lemma client_init_run:
  assumes "\<not> closed host"
  shows "client_init host cb new_client =
    (new_client\<lparr> c_host := Some (channel_send
         \<lparr> pw_type = PNum INIT, pw_id = None, pw_fields = [FInt32 3] \<rparr> host),
       c_id := Some 1,
       c_requests := (\<lambda>k. None)(None \<mapsto>
         \<lparr> rq_callback = cb, rq_parser = InitParser,
           rq_info = \<lparr> ci_command = ''init'', ci_path = None, ci_handle = None \<rparr> \<rparr>) \<rparr>,
     Awaiting)"
  by (simp add: client_init_def new_client_def getRequest_def execute_def write_field_def Let_def)

text \<open>
  C6, as stated, fails: an id that is still in use is not skipped. With the counter at 7
  and request 7 in flight, the next operation is given id 7, aborts with
  \<open>Duplicate request\<close> and sends nothing; only the counter has moved on, to 8.
\<close>

theorem in_use_id_not_skipped_counterexample:
  "snd (client_read (OwnHandle [0, 0, 0, 3]) None 0 16 0 9 busy_client) = Threw ''Duplicate request''
   \<and> host_sent (fst (client_read (OwnHandle [0, 0, 0, 3]) None 0 16 0 9 busy_client)) = []
   \<and> c_id (fst (client_read (OwnHandle [0, 0, 0, 3]) None 0 16 0 9 busy_client)) = Some 8"
  by (simp add: client_read_def toHandle_def checkPosition_def busy_client_def ready_client_def
      new_client_def getRequest_def READ_def INIT_def execute_def Let_def ToInt32_id
      MAX_READ_BLOCK_LENGTH_def host_sent_def channel_init_def new_channel_def
      read_request_def write_field_def)

text \<open>
  C6, amended: INIT is sent without an id (it is stored under \<open>null\<close>, no numeric id is
  taken) and sets the counter to 1. Every later request is given the value of the
  counter, which then becomes \<open>(id + 1) & 0xffffffff\<close>: the ids of \<open>n\<close> successive requests
  are \<open>i, i + 1, ...\<close> read as signed 32-bit numbers, so the counter goes up by one, steps
  from \<open>2^31 - 1\<close> to \<open>-2^31\<close> and is the count modulo \<open>2^32\<close>. The table is not
  consulted when an id is chosen: a request whose id is still in the table aborts with
  \<open>Duplicate request\<close> before anything is sent, and one whose id is free is sent and
  entered in the table.
\<close>

theorem request_ids:
  "(\<not> closed host \<longrightarrow>
      snd (client_init host cb new_client) = Awaiting
    \<and> c_id (fst (client_init host cb new_client)) = Some 1
    \<and> host_sent (fst (client_init host cb new_client)) =
        ws_sent host @ [\<lparr> pw_type = PNum INIT, pw_id = None, pw_fields = [FInt32 3] \<rparr>]
    \<and> c_requests (fst (client_init host cb new_client)) (Some k) = None)
   \<and> (t \<noteq> PNum INIT \<and> c_id c = Some (ToInt32 i) \<longrightarrow>
        allocate n t c = map (\<lambda>k. Some (ToInt32 (i + int k))) [0..<n])
   \<and> (- (2 ^ 31) \<le> j \<and> j < 2 ^ 31 \<longrightarrow> ToInt32 j = j)
   \<and> ToInt32 (2 ^ 31 - 1 + 1) = - (2 ^ 31)
   \<and> ToInt32 j mod 2 ^ 32 = j mod 2 ^ 32
   \<and> (c_host c = Some h \<and> pw_id request = Some j \<and> c_requests c (Some j) = Some rq \<longrightarrow>
        execute request cb parser info c = (c, Threw ''Duplicate request''))
   \<and> (c_host c = Some h \<and> \<not> closed h \<and> pw_id request = Some j \<and> c_requests c (Some j) = None \<longrightarrow>
        snd (execute request cb parser info c) = Awaiting
      \<and> host_sent (fst (execute request cb parser info c)) = ws_sent h @ [request]
      \<and> c_requests (fst (execute request cb parser info c)) (Some j) =
          Some \<lparr> rq_callback = cb, rq_parser = parser, rq_info = info \<rparr>)"
proof -
  have a: "\<not> closed host \<longrightarrow>
      snd (client_init host cb new_client) = Awaiting
    \<and> c_id (fst (client_init host cb new_client)) = Some 1
    \<and> host_sent (fst (client_init host cb new_client)) =
        ws_sent host @ [\<lparr> pw_type = PNum INIT, pw_id = None, pw_fields = [FInt32 3] \<rparr>]
    \<and> c_requests (fst (client_init host cb new_client)) (Some k) = None"
    by (simp add: client_init_run host_sent_def channel_send_def)
  have b: "t \<noteq> PNum INIT \<and> c_id c = Some (ToInt32 i) \<longrightarrow>
        allocate n t c = map (\<lambda>k. Some (ToInt32 (i + int k))) [0..<n]"
    using allocate_ids [of t c i n] by blast
  have d: "c_host c = Some h \<and> pw_id request = Some j \<and> c_requests c (Some j) = Some rq \<longrightarrow>
        execute request cb parser info c = (c, Threw ''Duplicate request'')"
    by (simp add: execute_def)
  have e: "c_host c = Some h \<and> \<not> closed h \<and> pw_id request = Some j \<and> c_requests c (Some j) = None \<longrightarrow>
        snd (execute request cb parser info c) = Awaiting
      \<and> host_sent (fst (execute request cb parser info c)) = ws_sent h @ [request]
      \<and> c_requests (fst (execute request cb parser info c)) (Some j) =
          Some \<lparr> rq_callback = cb, rq_parser = parser, rq_info = info \<rparr>"
    by (simp add: execute_def host_sent_def channel_send_def)
  show ?thesis
    using a b d e ToInt32_id [of j] ToInt32_wrap ToInt32_mod [of j] by blast
qed

theorem request_ids_witness:
  "allocate 3 (PNum READ) (fst (client_init (channel_init (new_channel WebSocketChannelWS False)) 7 new_client))
     = [Some 1, Some 2, Some 3]
   \<and> execute \<lparr> pw_type = PNum READ, pw_id = Some 7, pw_fields = [] \<rparr> 9 StatusParser
        \<lparr> ci_command = ''fstat'', ci_path = None, ci_handle = None \<rparr> busy_client
     = (busy_client, Threw ''Duplicate request'')"
proof -
  let ?c = "fst (client_init (channel_init (new_channel WebSocketChannelWS False)) 7 new_client)"
  have c: "\<not> closed (channel_init (new_channel WebSocketChannelWS False))"
    by (simp add: channel_init_def new_channel_def)
  have i: "c_id ?c = Some (ToInt32 1)"
    by (simp add: client_init_run [OF c] ToInt32_id)
  have u: "[0..<3] = [0, 1, 2]" by (simp add: upt_rec)
  have t: "ToInt32 1 = 1" "ToInt32 2 = 2" "ToInt32 3 = 3" by (simp_all add: ToInt32_id)
  have b: "c_host busy_client = Some (channel_init (new_channel WebSocketChannelWS False))"
      "c_requests busy_client (Some 7) =
         Some \<lparr> rq_callback = 1, rq_parser = StatusParser,
           rq_info = \<lparr> ci_command = ''close'', ci_path = None, ci_handle = Some [0, 0, 0, 3] \<rparr> \<rparr>"
    by (simp_all add: busy_client_def ready_client_def)
  show ?thesis
    using request_ids [where t = "PNum READ" and c = ?c and i = 1 and n = 3]
      request_ids [where c = busy_client and h = "channel_init (new_channel WebSocketChannelWS False)"
        and request = "\<lparr> pw_type = PNum READ, pw_id = Some 7, pw_fields = [] \<rparr>" and j = 7
        and cb = 9 and parser = StatusParser
        and info = "\<lparr> ci_command = ''fstat'', ci_path = None, ci_handle = None \<rparr>"] i b
    by (simp add: u t READ_def INIT_def)
qed

section \<open>Handshake\<close>

lemma version2_packet:
  "reader_new [0, 0, 0, 5, 2, 0, 0, 0, 2] =
     Inr \<lparr> rd_buffer = [0, 0, 0, 5, 2, 0, 0, 0, 2], rd_position = 5, rd_length = 9,
           rd_type = Some (PNum VERSION), rd_id = None \<rparr>"
  "readInt32 \<lparr> rd_buffer = [0, 0, 0, 5, 2, 0, 0, 0, 2], rd_position = 5, rd_length = 9,
           rd_type = Some (PNum VERSION), rd_id = None \<rparr> =
     Inr (2, \<lparr> rd_buffer = [0, 0, 0, 5, 2, 0, 0, 0, 2], rd_position = 9, rd_length = 9,
           rd_type = Some (PNum VERSION), rd_id = None \<rparr>)"
proof -
  have u: "readUInt32 \<lparr> rd_buffer = [0, 0, 0, 5, 2, 0, 0, 0, 2], rd_position = 0, rd_length = 9,
           rd_type = None, rd_id = None \<rparr> =
     Inr (5, \<lparr> rd_buffer = [0, 0, 0, 5, 2, 0, 0, 0, 2], rd_position = 4, rd_length = 9,
           rd_type = None, rd_id = None \<rparr>)"
    by (simp add: readUInt32_def check_def byte_at_Cons ToInt32_id Let_def)
  show "reader_new [0, 0, 0, 5, 2, 0, 0, 0, 2] =
     Inr \<lparr> rd_buffer = [0, 0, 0, 5, 2, 0, 0, 0, 2], rd_position = 5, rd_length = 9,
           rd_type = Some (PNum VERSION), rd_id = None \<rparr>"
    by (simp add: reader_new_def readInt32_def u readByte_def check_def byte_at_Cons
        INIT_def VERSION_def)
  show "readInt32 \<lparr> rd_buffer = [0, 0, 0, 5, 2, 0, 0, 0, 2], rd_position = 5, rd_length = 9,
           rd_type = Some (PNum VERSION), rd_id = None \<rparr> =
     Inr (2, \<lparr> rd_buffer = [0, 0, 0, 5, 2, 0, 0, 0, 2], rd_position = 9, rd_length = 9,
           rd_type = Some (PNum VERSION), rd_id = None \<rparr>)"
    by (simp add: readInt32_def readUInt32_def check_def byte_at_Cons ToInt32_id Let_def)
qed

text \<open>
  C5, as stated, fails: a VERSION response with version 2 makes the client close the
  channel with code 3002, not 1002.
\<close>

theorem handshake_close_code_counterexample:
  "host_closed_with (fst (client_process [0, 0, 0, 5, 2, 0, 0, 0, 2]
      (fst (client_init (channel_init (new_channel WebSocketChannelWS False)) 7 new_client)))) = [3002]
   \<and> host_closed_with (fst (client_process [0, 0, 0, 5, 2, 0, 0, 0, 2]
      (fst (client_init (channel_init (new_channel WebSocketChannelWS False)) 7 new_client)))) \<noteq> [1002]"
proof -
  have c: "\<not> closed (channel_init (new_channel WebSocketChannelWS False))"
    by (simp add: channel_init_def new_channel_def)
  show ?thesis
    by (simp add: client_process_def version2_packet client_init_run [OF c] process_response_def
        init_parser_def host_close_def channel_close_def channel_send_def c
        host_closed_with_def)
       (simp add: channel_init_def new_channel_def)
qed

text \<open>
  C5, amended: when the response that answers INIT (a packet without request id) has a
  type other than VERSION, or is a VERSION whose version number is not 3, the client
  closes the channel with close code 3002 and hands an error to the callback of the
  handshake: \<open>Protocol violation\<close> for the wrong type, EFAILURE (status BAD_MESSAGE,
  \<open>Unexpected protocol version\<close>) for the wrong version.
\<close>

theorem handshake_rejects:
  assumes "c_requests c None = Some rq" and "rq_parser rq = InitParser"
    and "c_host c = Some host" and "\<not> closed host"
    and "rd_id response = None"
    and "rd_type response \<noteq> Some (PNum VERSION)
         \<or> (rd_type response = Some (PNum VERSION) \<and> readInt32 response = Inr (version, r') \<and> version \<noteq> 3)"
  shows "snd (process_response response c) =
           Called (rq_callback rq)
             (Some (if rd_type response \<noteq> Some (PNum VERSION) then protocol_violation
                    else createError BAD_MESSAGE ''Unexpected protocol version'' (rq_info rq)))
             NoPayload
       \<and> host_closed_with (fst (process_response response c)) = ws_closed_with host @ [3002]
       \<and> c_requests (fst (process_response response c)) None = None"
  using assms
  by (auto simp: process_response_def init_parser_def host_close_def channel_close_def
      host_closed_with_def)

theorem handshake_rejects_witness:
  "snd (client_process [0, 0, 0, 5, 2, 0, 0, 0, 2]
      (fst (client_init (channel_init (new_channel WebSocketChannelWS False)) 7 new_client))) =
     Called 7 (Some (createError BAD_MESSAGE ''Unexpected protocol version''
                 \<lparr> ci_command = ''init'', ci_path = None, ci_handle = None \<rparr>)) NoPayload
   \<and> host_closed_with (fst (client_process [0, 0, 0, 5, 2, 0, 0, 0, 2]
      (fst (client_init (channel_init (new_channel WebSocketChannelWS False)) 7 new_client)))) = [3002]"
proof -
  let ?r = "\<lparr> rd_buffer = [0, 0, 0, 5, 2, 0, 0, 0, 2], rd_position = 5, rd_length = 9,
           rd_type = Some (PNum VERSION), rd_id = None \<rparr>"
  let ?c = "fst (client_init (channel_init (new_channel WebSocketChannelWS False)) 7 new_client)"
  let ?rq = "\<lparr> rq_callback = 7, rq_parser = InitParser,
           rq_info = \<lparr> ci_command = ''init'', ci_path = None, ci_handle = None \<rparr> \<rparr>"
  let ?host = "channel_send \<lparr> pw_type = PNum INIT, pw_id = None, pw_fields = [FInt32 3] \<rparr>
                 (channel_init (new_channel WebSocketChannelWS False))"
  have c: "\<not> closed (channel_init (new_channel WebSocketChannelWS False))"
    by (simp add: channel_init_def new_channel_def)
  have h1: "c_requests ?c None = Some ?rq" and h2: "rq_parser ?rq = InitParser"
    and h3: "c_host ?c = Some ?host" and h4: "\<not> closed ?host" and h5: "rd_id ?r = None"
    and h6: "rd_type ?r \<noteq> Some (PNum VERSION)
         \<or> (rd_type ?r = Some (PNum VERSION) \<and> readInt32 ?r =
               Inr (2, \<lparr> rd_buffer = [0, 0, 0, 5, 2, 0, 0, 0, 2], rd_position = 9, rd_length = 9,
                        rd_type = Some (PNum VERSION), rd_id = None \<rparr>) \<and> (2::int) \<noteq> 3)"
    by (simp_all add: client_init_run [OF c] version2_packet channel_send_def c)
  have w: "ws_closed_with ?host = []"
    by (simp add: channel_send_def channel_init_def new_channel_def)
  show ?thesis
    using handshake_rejects [OF h1 h2 h3 h4 h5 h6]
    by (simp add: client_process_def version2_packet w)
qed

section \<open>Reads that return no data\<close>

lemma read_request_id [simp]: "pw_id (read_request h position len request) = pw_id request"
  by (simp add: read_request_def write_field_def)

lemma parseData_empty_retry:
  assumes "zero_length_data response" and "retries \<le> 4" and "0 \<le> len"
    and "c_host c = Some host" and "c_id c = Some j" and "c_requests c (Some j) = None"
  shows "parseData response cb info retries h buffer offset len position c =
    (c\<lparr> c_id := Some (ToInt32 (j + 1)),
        c_host := Some (channel_send
          (read_request h position 0 \<lparr> pw_type = PNum READ, pw_id = Some j, pw_fields = [] \<rparr>) host),
        c_requests := (c_requests c)(Some j \<mapsto>
          \<lparr> rq_callback = cb, rq_parser = DataParser (retries + 1) h buffer offset 0 position,
            rq_info = info \<rparr>) \<rparr>, Awaiting)"
  using assms
  by (auto simp: parseData_def zero_length_data_def DATA_def STATUS_def getRequest_def
      READ_def INIT_def execute_def Let_def split: sum.splits prod.splits)

lemma parseData_empty_fail:
  assumes "zero_length_data response" and "retries > 4" and "0 \<le> len"
  shows "parseData response cb info retries h buffer offset len position c =
    (c, Called cb (Some (eio_error (createError FAILURE ''Unable to read data'' info)))
          (ReadResult None 0))"
  using assms
  by (auto simp: parseData_def zero_length_data_def DATA_def STATUS_def
      split: sum.splits prod.splits)


lemma process_empty_retry:
  assumes mk: "zero_length_data (mk j) \<and> rd_id (mk j) = Some j"
    and rp: "read_pending c j retries cb h buffer offset len position info"
    and fresh: "\<And>k. j < k \<Longrightarrow> c_requests c (Some k) = None"
    and "retries \<le> 4" and "- (2 ^ 31) \<le> j" and "j + 2 < 2 ^ 31"
  shows "snd (process_response (mk j) c) = Awaiting
       \<and> read_pending (fst (process_response (mk j) c)) (j + 1) (retries + 1) cb h buffer offset 0
            position info
       \<and> (\<forall>k. j + 1 < k \<longrightarrow> c_requests (fst (process_response (mk j) c)) (Some k) = None)
       \<and> host_sent (fst (process_response (mk j) c)) = host_sent c @
            [read_request h position 0
               \<lparr> pw_type = PNum READ, pw_id = Some (j + 1), pw_fields = [] \<rparr>]"
proof -
  obtain host where host: "c_host c = Some host" "\<not> closed host"
    using rp by (auto simp: read_pending_def split: option.splits)
  let ?c0 = "c\<lparr> c_requests := (c_requests c)(Some j := None) \<rparr>"
  have t1: "ToInt32 (j + 1 + 1) = j + 1 + 1"
    using assms(5,6) by (intro ToInt32_id) simp_all
  have pd: "parseData (mk j) cb info retries h buffer offset len position ?c0 =
    (?c0\<lparr> c_id := Some (ToInt32 (j + 1 + 1)),
        c_host := Some (channel_send
          (read_request h position 0 \<lparr> pw_type = PNum READ, pw_id = Some (j + 1), pw_fields = [] \<rparr>) host),
        c_requests := (c_requests ?c0)(Some (j + 1) \<mapsto>
          \<lparr> rq_callback = cb, rq_parser = DataParser (retries + 1) h buffer offset 0 position,
            rq_info = info \<rparr>) \<rparr>, Awaiting)"
    using mk rp host fresh [of "j + 1"] assms(4)
    by (intro parseData_empty_retry) (simp_all add: read_pending_def)
  have pr: "process_response (mk j) c = parseData (mk j) cb info retries h buffer offset len position ?c0"
    using mk rp by (simp add: process_response_def read_pending_def)
  show ?thesis
    using host fresh t1
    by (simp add: pr pd read_pending_def last_request_id_def host_sent_def channel_send_def)
qed

lemma process_empty_fail:
  assumes mk: "zero_length_data (mk j) \<and> rd_id (mk j) = Some j"
    and rp: "read_pending c j retries cb h buffer offset len position info"
    and "retries > 4"
  shows "snd (process_response (mk j) c) =
           Called cb (Some (eio_error (createError FAILURE ''Unable to read data'' info)))
             (ReadResult None 0)"
  using assms
  by (simp add: process_response_def read_pending_def parseData_empty_fail)

lemma feed_empty_run:
  assumes mk: "\<And>j. zero_length_data (mk j) \<and> rd_id (mk j) = Some j"
    and "read_pending c j retries cb h buffer offset len position info"
    and "\<And>k. j < k \<Longrightarrow> c_requests c (Some k) = None"
    and "retries + n \<le> 5" and "- (2 ^ 31) \<le> j" and "j + int n + 1 < 2 ^ 31"
  shows "snd (feed n mk c) = Awaiting
       \<and> read_pending (fst (feed n mk c)) (j + int n) (retries + n) cb h buffer offset
            (if n = 0 then len else 0) position info
       \<and> (\<forall>k. j + int n < k \<longrightarrow> c_requests (fst (feed n mk c)) (Some k) = None)
       \<and> host_sent (fst (feed n mk c)) = host_sent c @
            map (\<lambda>k. read_request h position 0
                        \<lparr> pw_type = PNum READ, pw_id = Some (j + 1 + int k), pw_fields = [] \<rparr>) [0..<n]"
  using assms(2-)
proof (induction n arbitrary: c j retries len)
  case 0
  then show ?case by simp
next
  case (Suc n)
  let ?c1 = "fst (process_response (mk j) c)"
  have step: "snd (process_response (mk j) c) = Awaiting"
       "read_pending ?c1 (j + 1) (retries + 1) cb h buffer offset 0 position info"
       "\<And>k. j + 1 < k \<Longrightarrow> c_requests ?c1 (Some k) = None"
       "host_sent ?c1 = host_sent c @
            [read_request h position 0
               \<lparr> pw_type = PNum READ, pw_id = Some (j + 1), pw_fields = [] \<rparr>]"
    using process_empty_retry [of mk j c retries cb h buffer offset len position info, OF mk Suc.prems(1)]
      Suc.prems(2-) by simp_all
  have ih: "snd (feed n mk ?c1) = Awaiting
       \<and> read_pending (fst (feed n mk ?c1)) (j + 1 + int n) (retries + 1 + n) cb h buffer offset
            (if n = 0 then 0 else 0) position info
       \<and> (\<forall>k. j + 1 + int n < k \<longrightarrow> c_requests (fst (feed n mk ?c1)) (Some k) = None)
       \<and> host_sent (fst (feed n mk ?c1)) = host_sent ?c1 @
            map (\<lambda>k. read_request h position 0
                        \<lparr> pw_type = PNum READ, pw_id = Some (j + 1 + 1 + int k), pw_fields = [] \<rparr>) [0..<n]"
    using Suc.prems(3-) by (intro Suc.IH [OF step(2) step(3)]) simp_all
  have last: "last_request_id c = Some j"
    using Suc.prems(1) by (simp add: read_pending_def)
  have feed: "feed (Suc n) mk c = feed n mk ?c1"
    using last step(1) by (simp add: split_beta split: prod.splits outcome.splits)
  have m: "map (\<lambda>k. read_request h position 0
                        \<lparr> pw_type = PNum READ, pw_id = Some (j + 1 + int k), pw_fields = [] \<rparr>) [0..<Suc n]
         = read_request h position 0 \<lparr> pw_type = PNum READ, pw_id = Some (j + 1), pw_fields = [] \<rparr>
           # map (\<lambda>k. read_request h position 0
                        \<lparr> pw_type = PNum READ, pw_id = Some (j + 1 + 1 + int k), pw_fields = [] \<rparr>) [0..<n]"
  proof -
    have "[0..<Suc n] = 0 # map Suc [0..<n]"
      by (simp add: upt_conv_Cons map_Suc_upt del: upt_Suc)
    then show ?thesis by (simp add: comp_def algebra_simps del: upt_Suc)
  qed
  show ?case
    using ih step(4) unfolding feed m by (simp add: algebra_simps)
qed


lemma feed_add:
  "snd (feed n mk c) = Awaiting \<Longrightarrow> feed (n + m) mk c = feed m mk (fst (feed n mk c))"
proof (induction n arbitrary: c)
  case 0
  then show ?case by simp
next
  case (Suc n)
  show ?case
  proof (cases "last_request_id c")
    case None
    then show ?thesis using Suc.prems by simp
  next
    case (Some j)
    obtain c' out where p: "process_response (mk j) c = (c', out)"
      by (cases "process_response (mk j) c")
    show ?thesis
    proof (cases "out = Awaiting")
      case True
      then show ?thesis using Some p Suc.prems Suc.IH [of c'] by simp
    next
      case False
      then have "feed (Suc n) mk c = (c', out)" using Some p by (cases out) simp_all
      then show ?thesis using Suc.prems False by simp
    qed
  qed
qed

lemma client_read_sends:
  assumes "c_host c = Some host" and "\<not> closed host" and "c_id c = Some i"
    and "\<And>k. i \<le> k \<Longrightarrow> c_requests c (Some k) = None"
    and "case buffer of Some b \<Rightarrow> 0 \<le> offset \<and> offset + len \<le> int (length b) | None \<Rightarrow> True"
    and "0 \<le> len" and "len \<le> c_maxReadBlockLength c"
    and "0 \<le> position" and "position \<le> 0x7fffffffffffffff"
    and "- (2 ^ 31) \<le> i" and "i + 1 < 2 ^ 31"
  shows "snd (client_read (OwnHandle h) buffer offset len position cb c) = Awaiting
       \<and> read_pending (fst (client_read (OwnHandle h) buffer offset len position cb c)) i 0 cb h
            buffer offset len position
            \<lparr> ci_command = ''read'', ci_path = None, ci_handle = Some h \<rparr>
       \<and> (\<forall>k. i < k \<longrightarrow>
            c_requests (fst (client_read (OwnHandle h) buffer offset len position cb c)) (Some k) = None)
       \<and> host_sent (fst (client_read (OwnHandle h) buffer offset len position cb c)) =
            host_sent c @ [read_request h position len
                             \<lparr> pw_type = PNum READ, pw_id = Some i, pw_fields = [] \<rparr>]"
proof -
  have t: "ToInt32 (i + 1) = i + 1" using assms(10,11) by (intro ToInt32_id) simp_all
  have cb: "(case buffer of Some b \<Rightarrow> checkBuffer b offset len | None \<Rightarrow> Inr ()) = Inr ()"
    using assms(5,6) by (auto simp: checkBuffer_def split: option.splits)
  show ?thesis
    using assms(1-4,6-9) t
    by (simp add: client_read_def toHandle_def cb checkPosition_def getRequest_def READ_def
        INIT_def execute_def Let_def read_pending_def last_request_id_def host_sent_def
        channel_send_def)
qed

text \<open>
  C3, as stated, fails: after the fourth and after the fifth zero-length DATA response
  the client is still waiting; it has sent a fourth and a fifth retry (five and six
  READ requests in all) and no error has reached the caller.
\<close>

theorem fifth_empty_read_counterexample:
  "snd (feed 4 empty_data_response
          (fst (client_read (OwnHandle [0, 0, 0, 3]) None 0 4096 0 7 ready_client))) = Awaiting
   \<and> length (host_sent (fst (feed 4 empty_data_response
          (fst (client_read (OwnHandle [0, 0, 0, 3]) None 0 4096 0 7 ready_client))))) = 5
   \<and> snd (feed 5 empty_data_response
          (fst (client_read (OwnHandle [0, 0, 0, 3]) None 0 4096 0 7 ready_client))) = Awaiting
   \<and> length (host_sent (fst (feed 5 empty_data_response
          (fst (client_read (OwnHandle [0, 0, 0, 3]) None 0 4096 0 7 ready_client))))) = 6"
proof -
  have ok: "\<And>j. zero_length_data (empty_data_response j) \<and> rd_id (empty_data_response j) = Some j"
    by (rule empty_data_response_ok)
  have rp: "read_pending (fst (client_read (OwnHandle [0, 0, 0, 3]) None 0 4096 0 7 ready_client))
              1 0 7 [0, 0, 0, 3] None 0 4096 0
              \<lparr> ci_command = ''read'', ci_path = None, ci_handle = Some [0, 0, 0, 3] \<rparr>"
    and fr: "\<And>k. 1 < k \<Longrightarrow>
       c_requests (fst (client_read (OwnHandle [0, 0, 0, 3]) None 0 4096 0 7 ready_client)) (Some k) = None"
    and hs: "host_sent (fst (client_read (OwnHandle [0, 0, 0, 3]) None 0 4096 0 7 ready_client)) =
       [read_request [0, 0, 0, 3] 0 4096 \<lparr> pw_type = PNum READ, pw_id = Some 1, pw_fields = [] \<rparr>]"
    using client_read_sends [where c = ready_client and host = "channel_init (new_channel WebSocketChannelWS False)"
        and i = 1 and buffer = None and offset = 0 and len = 4096 and position = 0
        and h = "[0, 0, 0, 3]" and cb = 7]
    by (simp_all add: ready_client_simps)
  have "snd (feed n empty_data_response
          (fst (client_read (OwnHandle [0, 0, 0, 3]) None 0 4096 0 7 ready_client))) = Awaiting
      \<and> length (host_sent (fst (feed n empty_data_response
          (fst (client_read (OwnHandle [0, 0, 0, 3]) None 0 4096 0 7 ready_client))))) = 1 + n"
    if "n \<le> 5" for n
    using that feed_empty_run [where mk = empty_data_response
        and c = "fst (client_read (OwnHandle [0, 0, 0, 3]) None 0 4096 0 7 ready_client)"
        and j = 1 and retries = 0 and cb = 7 and h = "[0, 0, 0, 3]" and buffer = None
        and offset = 0 and len = 4096 and position = 0
        and info = "\<lparr> ci_command = ''read'', ci_path = None, ci_handle = Some [0, 0, 0, 3] \<rparr>"
        and n = n, OF ok rp fr]
    by (simp add: hs)
  from this [of 4] this [of 5] show ?thesis by simp
qed

text \<open>
  C3, amended: when every READ of a read operation is answered by a DATA packet of
  length zero, the client retries at the same position up to 5 times (each retry asks
  for 0 bytes), and the sixth such response makes it hand an EIO error, errno 55, to the
  caller.
\<close>

theorem empty_reads_retried:
  assumes mk: "\<And>j. zero_length_data (mk j) \<and> rd_id (mk j) = Some j"
    and "c_host c = Some host" and "\<not> closed host" and "c_id c = Some i"
    and "\<And>k. i \<le> k \<Longrightarrow> c_requests c (Some k) = None"
    and "case buffer of Some b \<Rightarrow> 0 \<le> offset \<and> offset + len \<le> int (length b) | None \<Rightarrow> True"
    and "0 \<le> len" and "len \<le> c_maxReadBlockLength c"
    and "0 \<le> position" and "position \<le> 0x7fffffffffffffff"
    and "- (2 ^ 31) \<le> i" and "i + 6 < 2 ^ 31"
  shows "snd (client_read (OwnHandle h) buffer offset len position cb c) = Awaiting
       \<and> (n \<le> 5 \<longrightarrow>
            snd (feed n mk (fst (client_read (OwnHandle h) buffer offset len position cb c)))
              = Awaiting
          \<and> host_sent (fst (feed n mk (fst (client_read (OwnHandle h) buffer offset len position cb c))))
              = host_sent c
                @ [read_request h position len \<lparr> pw_type = PNum READ, pw_id = Some i, pw_fields = [] \<rparr>]
                @ map (\<lambda>k. read_request h position 0
                        \<lparr> pw_type = PNum READ, pw_id = Some (i + 1 + int k), pw_fields = [] \<rparr>) [0..<n])
       \<and> snd (feed 6 mk (fst (client_read (OwnHandle h) buffer offset len position cb c)))
            = Called cb
                (Some (eio_error (createError FAILURE ''Unable to read data''
                   \<lparr> ci_command = ''read'', ci_path = None, ci_handle = Some h \<rparr>)))
                (ReadResult None 0)
       \<and> err_code (eio_error (createError FAILURE ''Unable to read data''
                   \<lparr> ci_command = ''read'', ci_path = None, ci_handle = Some h \<rparr>)) = Some ''EIO''
       \<and> err_errno (eio_error (createError FAILURE ''Unable to read data''
                   \<lparr> ci_command = ''read'', ci_path = None, ci_handle = Some h \<rparr>)) = Some 55"
proof -
  let ?info = "\<lparr> ci_command = ''read'', ci_path = None, ci_handle = Some h \<rparr>"
  let ?c1 = "fst (client_read (OwnHandle h) buffer offset len position cb c)"
  have r: "snd (client_read (OwnHandle h) buffer offset len position cb c) = Awaiting"
       "read_pending ?c1 i 0 cb h buffer offset len position ?info"
       "\<And>k. i < k \<Longrightarrow> c_requests ?c1 (Some k) = None"
       "host_sent ?c1 = host_sent c @ [read_request h position len
                             \<lparr> pw_type = PNum READ, pw_id = Some i, pw_fields = [] \<rparr>]"
    using client_read_sends [OF assms(2-11), of h cb] assms(12) by simp_all
  have run: "snd (feed n mk ?c1) = Awaiting
       \<and> read_pending (fst (feed n mk ?c1)) (i + int n) (0 + n) cb h buffer offset
            (if n = 0 then len else 0) position ?info
       \<and> (\<forall>k. i + int n < k \<longrightarrow> c_requests (fst (feed n mk ?c1)) (Some k) = None)
       \<and> host_sent (fst (feed n mk ?c1)) = host_sent ?c1 @
            map (\<lambda>k. read_request h position 0
                        \<lparr> pw_type = PNum READ, pw_id = Some (i + 1 + int k), pw_fields = [] \<rparr>) [0..<n]"
    if "n \<le> 5" for n
    using that assms(11,12)
    by (intro feed_empty_run [of mk ?c1 i 0 cb h buffer offset len position ?info n, OF mk r(2) r(3)])
       simp_all
  have five: "snd (feed 5 mk ?c1) = Awaiting"
       "read_pending (fst (feed 5 mk ?c1)) (i + 5) 5 cb h buffer offset 0 position ?info"
    using run [of 5] by simp_all
  have "feed (5 + 1) mk ?c1 = feed 1 mk (fst (feed 5 mk ?c1))"
    by (rule feed_add [OF five(1)])
  moreover have "snd (feed 1 mk (fst (feed 5 mk ?c1))) =
      Called cb (Some (eio_error (createError FAILURE ''Unable to read data'' ?info)))
        (ReadResult None 0)"
  proof -
    have l: "last_request_id (fst (feed 5 mk ?c1)) = Some (i + 5)"
      using five(2) by (simp add: read_pending_def)
    have "snd (process_response (mk (i + 5)) (fst (feed 5 mk ?c1))) =
      Called cb (Some (eio_error (createError FAILURE ''Unable to read data'' ?info)))
        (ReadResult None 0)"
      by (rule process_empty_fail [of mk "i + 5", OF mk five(2)]) simp
    then show ?thesis using l by (simp add: One_nat_def split_beta split: prod.splits)
  qed
  ultimately have six: "snd (feed 6 mk ?c1) =
      Called cb (Some (eio_error (createError FAILURE ''Unable to read data'' ?info)))
        (ReadResult None 0)" by simp
  have e: "err_code (eio_error (createError FAILURE ''Unable to read data'' ?info)) = Some ''EIO''"
          "err_errno (eio_error (createError FAILURE ''Unable to read data'' ?info)) = Some 55"
    by (simp_all add: eio_error_def)
  show ?thesis using r(1) r(4) run [of n] six e by simp
qed

theorem empty_reads_retried_witness:
  "snd (feed 5 empty_data_response
          (fst (client_read (OwnHandle [0, 0, 0, 3]) None 0 4096 0 7 ready_client))) = Awaiting
   \<and> host_sent (fst (feed 5 empty_data_response
          (fst (client_read (OwnHandle [0, 0, 0, 3]) None 0 4096 0 7 ready_client)))) =
       [\<lparr> pw_type = PNum READ, pw_id = Some 1, pw_fields = [FData [0, 0, 0, 3], FInt64 0, FInt32 4096] \<rparr>,
        \<lparr> pw_type = PNum READ, pw_id = Some 2, pw_fields = [FData [0, 0, 0, 3], FInt64 0, FInt32 0] \<rparr>,
        \<lparr> pw_type = PNum READ, pw_id = Some 3, pw_fields = [FData [0, 0, 0, 3], FInt64 0, FInt32 0] \<rparr>,
        \<lparr> pw_type = PNum READ, pw_id = Some 4, pw_fields = [FData [0, 0, 0, 3], FInt64 0, FInt32 0] \<rparr>,
        \<lparr> pw_type = PNum READ, pw_id = Some 5, pw_fields = [FData [0, 0, 0, 3], FInt64 0, FInt32 0] \<rparr>,
        \<lparr> pw_type = PNum READ, pw_id = Some 6, pw_fields = [FData [0, 0, 0, 3], FInt64 0, FInt32 0] \<rparr>]
   \<and> snd (feed 6 empty_data_response
          (fst (client_read (OwnHandle [0, 0, 0, 3]) None 0 4096 0 7 ready_client))) =
       Called 7
         (Some (eio_error (createError FAILURE ''Unable to read data''
            \<lparr> ci_command = ''read'', ci_path = None, ci_handle = Some [0, 0, 0, 3] \<rparr>)))
         (ReadResult None 0)"
proof -
  have u: "[0..<5] = [0, 1, 2, 3, 4]" by (simp add: upt_rec)
  have a1: "c_host ready_client = Some (channel_init (new_channel WebSocketChannelWS False))"
    and a2: "\<not> closed (channel_init (new_channel WebSocketChannelWS False))"
    and a3: "c_id ready_client = Some 1"
    and a4: "\<And>k. (1::int) \<le> k \<Longrightarrow> c_requests ready_client (Some k) = None"
    and a5: "case None :: bytes option of Some b \<Rightarrow> (0::int) \<le> 0 \<and> 0 + 4096 \<le> int (length b)
             | None \<Rightarrow> True"
    and a6: "(0::int) \<le> 4096" and a7: "4096 \<le> c_maxReadBlockLength ready_client"
    and a8: "(0::int) \<le> 0" and a9: "(0::int) \<le> 0x7fffffffffffffff"
    and a10: "- (2 ^ 31) \<le> (1::int)" and a11: "(1::int) + 6 < 2 ^ 31"
    by (simp_all add: ready_client_simps)
  note t = empty_reads_retried [where mk = empty_data_response and n = 5 and h = "[0, 0, 0, 3]"
      and cb = 7, OF empty_data_response_ok a1 a2 a3 a4 a5 a6 a7 a8 a9 a10 a11]
  show ?thesis
    using t by (simp add: u ready_client_simps(6) read_request_def write_field_def)
qed

section \<open>Cache invalidation by the adapter\<close>

lemma clearCache_link [simp]: "linkCache (clearCache env p s) = linkCache s"
  by (simp add: clearCache_def Let_def split: option.splits)

lemma clearCache_state [simp]: "state (clearCache env p s) = state s"
  by (simp add: clearCache_def Let_def split: option.splits)

lemma clearCache_data [simp]: "data (clearCache env p s) = data s"
  by (simp add: clearCache_def Let_def split: option.splits)

lemma clearCache_attr:
  "attr_entry_of (clearCache env p s) q = (if q = p then None else attr_entry_of s q)"
  by (auto simp: clearCache_def attr_entry_of_def cache_delete_def Let_def split: option.splits)

lemma clearCache_dir:
  "dir_entry_of (clearCache env p s) q =
     (if q = p \<or> q = dirname env p then None else dir_entry_of s q)"
  by (auto simp: clearCache_def dir_entry_of_def cache_delete_def Let_def split: option.splits)

lemma delete_parents_link [simp]: "linkCache (delete_parents env a b s) = linkCache s"
  by (simp add: delete_parents_def)

lemma delete_parents_attr [simp]: "attr_entry_of (delete_parents env a b s) q = attr_entry_of s q"
  by (simp add: delete_parents_def attr_entry_of_def)

lemma delete_parents_dir:
  "dir_entry_of (delete_parents env a b s) q =
     (if q = dirname env a \<or> q = dirname env b then None else dir_entry_of s q)"
  by (auto simp: delete_parents_def dir_entry_of_def cache_delete_def split: option.splits)

lemma trackRead_caches [simp]:
  "linkCache (trackRead now p s) = linkCache s"
  "attr_entry_of (trackRead now p s) q = attr_entry_of s q"
  "dir_entry_of (trackRead now p s) q = dir_entry_of s q"
  by (auto simp: trackRead_def attr_entry_of_def dir_entry_of_def Let_def
      split: option.splits attr_entry.splits)

lemma entry_of_data_update [simp]:
  "attr_entry_of (s\<lparr> data := d \<rparr>) q = attr_entry_of s q"
  "dir_entry_of (s\<lparr> data := d \<rparr>) q = dir_entry_of s q"
  "attr_entry_of (s\<lparr> readTracking := rt \<rparr>) q = attr_entry_of s q"
  "dir_entry_of (s\<lparr> readTracking := rt \<rparr>) q = dir_entry_of s q"
  by (simp_all add: attr_entry_of_def dir_entry_of_def)

lemma fuse_flush_caches:
  "linkCache (fst (fuse_flush env rp p fd s)) = linkCache s"
  "attr_entry_of s q = None \<Longrightarrow> attr_entry_of (fst (fuse_flush env rp p fd s)) q = None"
  "dir_entry_of s q = None \<Longrightarrow> dir_entry_of (fst (fuse_flush env rp p fd s)) q = None"
  by (auto simp: fuse_flush_def Let_def clearCache_attr clearCache_dir
      split: option.splits prod.splits)

lemma fuse_write_caches:
  assumes "state s = Ready"
  shows "linkCache (fst (fuse_write env rp p fd buffer len position s)) = linkCache s"
    and "attr_entry_of (fst (fuse_write env rp p fd buffer len position s)) p = None"
    and "dir_entry_of (fst (fuse_write env rp p fd buffer len position s)) p = None"
    and "dir_entry_of (fst (fuse_write env rp p fd buffer len position s)) (dirname env p) = None"
  using assms
  by (auto simp: fuse_write_def Let_def clearCache_attr clearCache_dir fuse_flush_caches
      split_beta split: option.splits)

lemma ready_fst:
  assumes "state s = Ready"
  shows "fst (fuse_truncate env p sz s) = clearCache env p s"
    and "fst (fuse_ftruncate env p fd sz s) = clearCache env p s"
    and "fst (fuse_utimens env p atime mtime s) = clearCache env p s"
    and "fst (fuse_open env now p flags s) = clearCache env p (trackRead now p s)"
    and "fst (fuse_create env now p mode s) = clearCache env p (trackRead now p s)"
    and "fst (fuse_unlink env p s) = clearCache env p s"
    and "fst (fuse_mkdir env p mode s) = clearCache env p s"
    and "fst (fuse_rmdir env p s) = clearCache env p s"
    and "fst (fuse_rename env a b s) = delete_parents env a b (clearCache env b (clearCache env a s))"
    and "fst (fuse_link env a b s) = delete_parents env a b (clearCache env b (clearCache env a s))"
    and "fst (fuse_symlink env a b s) = clearCache env b (clearCache env a s)"
  using assms
  by (simp_all add: fuse_truncate_def fuse_ftruncate_def fuse_utimens_def
        fuse_open_def fuse_create_def fuse_unlink_def fuse_rename_def fuse_link_def
        fuse_symlink_def fuse_mkdir_def fuse_rmdir_def Let_def)

lemma cleared:
  "attr_entry_of (clearCache env p s) p = None"
  "dir_entry_of (clearCache env p s) p = None"
  "dir_entry_of (clearCache env p s) (dirname env p) = None"
  "attr_entry_of s q = None \<Longrightarrow> attr_entry_of (clearCache env p s) q = None"
  "dir_entry_of s q = None \<Longrightarrow> dir_entry_of (clearCache env p s) q = None"
  "dir_entry_of s q = None \<Longrightarrow> dir_entry_of (delete_parents env a b s) q = None"
  by (simp_all add: clearCache_attr clearCache_dir delete_parents_dir)

lemma posix_dirname_df: "posix_dirname ''/d/f'' = ''/d''"
  by (simp add: posix_dirname_def isAbsolute_def)

text \<open>
  C8, as stated, fails: no operation of the adapter invalidates the link cache. After
  \<open>unlink\<close> of \<open>/d/f\<close> the link cache still holds the target of \<open>/d/f\<close>, and a
  \<open>readlink\<close> within the TTL is answered from it without a request to the server.
\<close>

theorem unlink_keeps_link_entry_counterexample:
  "link_entry_of (fst (fuse_unlink linux_env ''/d/f'' example_adapter)) ''/d/f''
     = Some (Some ''target'', 20000)
   \<and> snd (fuse_readlink linux_env 5 ''/d/f'' (fst (fuse_unlink linux_env ''/d/f'' example_adapter)))
     = ([], DoneLink 0 (Some ''target''))"
  by (simp add: fuse_unlink_def example_adapter_def link_entry_of_def fuse_readlink_def
      clearCache_def Let_def cache_has_def cache_get_def cache_delete_def)

text \<open>
  C8, amended: on a connected adapter each of \<open>write\<close>, \<open>truncate\<close>, \<open>ftruncate\<close>,
  \<open>utimens\<close>, \<open>open\<close>, \<open>create\<close>, \<open>unlink\<close>, \<open>rename\<close>, \<open>link\<close>, \<open>symlink\<close>,
  \<open>mkdir\<close> and \<open>rmdir\<close> removes, for every path \<open>P\<close> it is given, the attribute cache
  entry of \<open>P\<close> and the directory cache entries of \<open>P\<close> and of \<open>dirname(P)\<close>; the link
  cache is left exactly as it was.
\<close>

theorem mutation_invalidates:
  assumes "state s = Ready" and "p \<in> set (mutated_paths op)"
  shows "attr_entry_of (fst (fuse_apply env rp now op s)) p = None
       \<and> dir_entry_of (fst (fuse_apply env rp now op s)) p = None
       \<and> dir_entry_of (fst (fuse_apply env rp now op s)) (dirname env p) = None
       \<and> linkCache (fst (fuse_apply env rp now op s)) = linkCache s"
proof (cases op)
  case (OpWrite path fd buffer len position)
  then show ?thesis using assms by (simp add: fuse_write_caches)
next
  case (OpRename src dest)
  then have "p = src \<or> p = dest" using assms by auto
  then show ?thesis using assms OpRename by (auto simp: ready_fst cleared)
next
  case (OpLink src dest)
  then have "p = src \<or> p = dest" using assms by auto
  then show ?thesis using assms OpLink by (auto simp: ready_fst cleared)
next
  case (OpSymlink src dest)
  then have "p = src \<or> p = dest" using assms by auto
  then show ?thesis using assms OpSymlink by (auto simp: ready_fst cleared)
qed (use assms in \<open>simp_all add: ready_fst cleared\<close>)

theorem mutation_invalidates_witness:
  "attr_entry_of example_adapter ''/d/f'' \<noteq> None
   \<and> dir_entry_of example_adapter ''/d'' \<noteq> None
   \<and> attr_entry_of (fst (fuse_apply linux_env (\<lambda>k. None) 0 (OpUnlink ''/d/f'') example_adapter)) ''/d/f'' = None
   \<and> dir_entry_of (fst (fuse_apply linux_env (\<lambda>k. None) 0 (OpUnlink ''/d/f'') example_adapter)) ''/d'' = None
   \<and> linkCache (fst (fuse_apply linux_env (\<lambda>k. None) 0 (OpUnlink ''/d/f'') example_adapter))
       = linkCache example_adapter"
  using mutation_invalidates [of example_adapter "''/d/f''" "OpUnlink ''/d/f''" linux_env "\<lambda>k. None" 0]
    posix_dirname_df
  by (simp add: example_adapter_def attr_entry_of_def dir_entry_of_def linux_env_def)

section \<open>Negative results in the link cache\<close>

text \<open>
  C10: the callback that \<open>readlink\<close> gives to the client stores the target in the link
  cache whether or not the request failed. After a failed READLINK (the target is
  \<open>undefined\<close>) the error number goes to the caller, the cache holds \<open>undefined\<close> for the
  path, and every \<open>readlink\<close> of the path before the entry expires is answered from the
  cache with status 0 and an undefined target, without a request.
\<close>

theorem readlink_error_is_cached:
  assumes "state s = Ready" and "linkCache s = Some c" and "now' < now + ttl c"
  shows "snd (readlink_reply env now path (Some e) None s) = Done (getErrno env e)
       \<and> link_entry_of (fst (readlink_reply env now path (Some e) None s)) path
           = Some (None, now + ttl c)
       \<and> snd (fuse_readlink env now' path (fst (readlink_reply env now path (Some e) None s)))
           = ([], DoneLink 0 None)"
  using assms
  by (simp add: readlink_reply_def fuse_readlink_def Let_def cache_set_def cache_has_def
      cache_get_def link_entry_of_def)

theorem readlink_error_is_cached_witness:
  "snd (fuse_readlink linux_env 100 ''/d/g'' example_adapter) = ([CallReadlink ''/d/g''], Later)
   \<and> snd (readlink_reply linux_env 150 ''/d/g''
        (Some (createError NO_SUCH_FILE ''No such file''
           \<lparr> ci_command = ''readlink'', ci_path = Some ''/d/g'', ci_handle = None \<rparr>))
        None example_adapter) = Done (- 2)
   \<and> snd (fuse_readlink linux_env 20149 ''/d/g''
        (fst (readlink_reply linux_env 150 ''/d/g''
           (Some (createError NO_SUCH_FILE ''No such file''
              \<lparr> ci_command = ''readlink'', ci_path = Some ''/d/g'', ci_handle = None \<rparr>))
           None example_adapter))) = ([], DoneLink 0 None)"
  using readlink_error_is_cached [of example_adapter
      "\<lparr> ttl = 20000, entries = (\<lambda>k. None)(''/d/f'' \<mapsto> (Some ''target'', 20000)) \<rparr>"
      20149 150 linux_env "''/d/g''"
      "createError NO_SUCH_FILE ''No such file''
           \<lparr> ci_command = ''readlink'', ci_path = Some ''/d/g'', ci_handle = None \<rparr>"]
  by (simp add: example_adapter_def fuse_readlink_def cache_has_def getErrno_def createError_def
      linux_env_def NO_SUCH_FILE_def STATUS_EOF_def)

section \<open>Write coalescing and flush\<close>

declare writeToDisk_loop.simps [simp del]

lemma wl_unfold_pos:
  "len > 0 \<Longrightarrow> writeToDisk_loop rp k fd buffer len offset position =
     (let n = min MAX_WRITE_BLOCK_LENGTH len;
          call = CallWrite fd (take n (drop offset buffer)) position
      in case rp k of
           Some e \<Rightarrow> ([call], Suc k, Some e)
         | None \<Rightarrow>
            (case writeToDisk_loop rp (Suc k) fd buffer (len - n) (offset + n) (position + int n) of
               (calls, k', r) \<Rightarrow> (call # calls, k', r)))"
  by (subst writeToDisk_loop.simps) simp

lemma wl_unfold_zero: "writeToDisk_loop rp k fd buffer 0 offset position = ([], k, None)"
  by (subst writeToDisk_loop.simps) simp





lemma wl_success_k:
  "fst (writeToDisk_loop (\<lambda>k. None) k fd buffer len offset position)
     = fst (writeToDisk_loop (\<lambda>k. None) 0 fd buffer len offset position)
   \<and> snd (snd (writeToDisk_loop (\<lambda>k. None) k fd buffer len offset position)) = None"
proof (induction len arbitrary: k offset position rule: less_induct)
  case (less len)
  show ?case
  proof (cases "len > 0")
    case False
    then show ?thesis by (simp add: wl_unfold_zero)
  next
    case True
    let ?n = "min MAX_WRITE_BLOCK_LENGTH len"
    have "len - ?n < len" using True by (simp add: MAX_WRITE_BLOCK_LENGTH_def)
    from less [OF this] have
      ih: "\<And>k offset position. fst (writeToDisk_loop (\<lambda>k. None) k fd buffer (len - ?n) offset position)
         = fst (writeToDisk_loop (\<lambda>k. None) 0 fd buffer (len - ?n) offset position)"
       "\<And>k offset position. snd (snd (writeToDisk_loop (\<lambda>k. None) k fd buffer (len - ?n) offset position)) = None"
      by blast+
    show ?thesis
      using True ih(1) [of "Suc k"] ih(1) [of "Suc 0"] ih(2)
      by (simp add: wl_unfold_pos Let_def split_beta)
  qed
qed

lemma writeToDisk_success:
  "fst (writeToDisk (\<lambda>k. None) k fd buffer (length buffer) position) = chunk_writes fd buffer position"
  "snd (snd (writeToDisk (\<lambda>k. None) k fd buffer (length buffer) position)) = None"
  using wl_success_k [of k fd buffer "length buffer" 0 position]
  by (simp_all add: writeToDisk_def chunk_writes_def)

lemma coalesce_shift:
  "coalesce (a @ b) p rest =
     (a @ fst (coalesce b (p + int (length a)) rest), snd (coalesce b (p + int (length a)) rest))"
proof (induction rest arbitrary: b)
  case Nil
  then show ?case by simp
next
  case (Cons r rest)
  obtain b2 p2 where r: "r = (b2, p2)" by (cases r)
  show ?case using Cons [of "b @ b2"] by (simp add: r)
qed

lemma merge_adjacent_coalesce:
  "merge_adjacent ((b, p) # rest) =
     (fst (coalesce b p rest), p) # merge_adjacent (snd (coalesce b p rest))"
proof (induction rest arbitrary: b p)
  case Nil
  then show ?case by simp
next
  case (Cons r rest)
  obtain b2 p2 where r: "r = (b2, p2)" by (cases r)
  show ?case
  proof (cases "p2 = p + int (length b)")
    case True
    have "coalesce (b @ b2) p rest =
            (b @ fst (coalesce b2 p2 rest), snd (coalesce b2 p2 rest))"
      using coalesce_shift [of b b2 p rest] True by simp
    then show ?thesis using True Cons [of b2 p2] by (simp add: r)
  next
    case False
    then show ?thesis by (auto simp: r)
  qed
qed

lemma flush_loop_success:
  "fst (flush_loop (\<lambda>k. None) k fd recs) =
     concat (map (\<lambda>(b, p). chunk_writes fd b p) (merge_adjacent recs))"
proof (induction recs arbitrary: k rule: length_induct)
  case (1 recs)
  show ?case
  proof (cases recs)
    case Nil
    then show ?thesis by simp
  next
    case (Cons r rest)
    obtain b p where r: "r = (b, p)" by (cases r)
    let ?c = "coalesce b p rest"
    let ?w = "writeToDisk (\<lambda>k. None) k fd (fst ?c) (length (fst ?c)) p"
    obtain calls k' res where w: "?w = (calls, k', res)" by (cases ?w)
    have calls: "calls = chunk_writes fd (fst ?c) p" and res: "res = None"
      using writeToDisk_success [of k fd "fst ?c" p] w by simp_all
    have "length (snd ?c) < length recs"
      using coalesce_length [of b p rest] Cons by simp
    then have ih: "fst (flush_loop (\<lambda>k. None) k' fd (snd ?c)) =
        concat (map (\<lambda>(b, p). chunk_writes fd b p) (merge_adjacent (snd ?c)))"
      using 1 by blast
    show ?thesis
      using w calls res ih
      by (simp add: Cons r merge_adjacent_coalesce case_prod_unfold)
  qed
qed









section \<open>Errors of a flush\<close>

lemma createError_taxonomy:
  "(err_errno (createError code message info) = Some (- 2))
     = (code = STATUS_OK \<or> code = FAILURE \<or> code = BAD_MESSAGE)"
  "(err_code (createError code message info) = Some ''EFAILURE'')
     = (code = STATUS_OK \<or> code = FAILURE \<or> code = BAD_MESSAGE)"
  "err_errno (createError NO_SUCH_FILE message info) = Some 34"
  "err_code (createError NO_SUCH_FILE message info) = Some ''ENOENT''"
  by (auto simp: createError_def Let_def STATUS_OK_def FAILURE_def BAD_MESSAGE_def
      NO_SUCH_FILE_def STATUS_EOF_def PERMISSION_DENIED_def NO_CONNECTION_def
      CONNECTION_LOST_def OP_UNSUPPORTED_def)

lemma answered_append:
  "answered rp k (xs @ ys) =
     (case answered rp k xs of
        (calls, k', Some e) \<Rightarrow> (calls, k', Some e)
      | (calls, k', None) \<Rightarrow>
          (case answered rp k' ys of (calls2, k'', r) \<Rightarrow> (calls @ calls2, k'', r)))"
  by (induction xs arbitrary: k) (auto split: option.splits prod.splits)

lemma answered_ok:
  "(\<And>i. i < length cs \<Longrightarrow> rp (k + i) = None) \<Longrightarrow> answered rp k cs = (cs, k + length cs, None)"
proof (induction cs arbitrary: k)
  case Nil
  then show ?case by simp
next
  case (Cons c cs)
  have "rp k = None" using Cons.prems [of 0] by simp
  moreover have "answered rp (Suc k) cs = (cs, Suc k + length cs, None)"
  proof (rule Cons.IH)
    fix i assume "i < length cs"
    then show "rp (Suc k + i) = None" using Cons.prems [of "Suc i"] by simp
  qed
  ultimately show ?case by simp
qed

lemma answered_fail:
  "i < length cs \<Longrightarrow> rp (k + i) = Some e \<Longrightarrow> (\<And>j. j < i \<Longrightarrow> rp (k + j) = None) \<Longrightarrow>
   answered rp k cs = (take (Suc i) cs, k + Suc i, Some e)"
proof (induction cs arbitrary: k i)
  case Nil
  then show ?case by simp
next
  case (Cons c cs)
  show ?case
  proof (cases i)
    case 0
    then show ?thesis using Cons.prems by simp
  next
    case (Suc i')
    have "rp k = None" using Cons.prems(3) [of 0] Suc by simp
    moreover have "answered rp (Suc k) cs = (take (Suc i') cs, Suc k + Suc i', Some e)"
    proof (rule Cons.IH)
      show "i' < length cs" using Cons.prems(1) Suc by simp
      show "rp (Suc k + i') = Some e" using Cons.prems(2) Suc by simp
      fix j assume "j < i'"
      then show "rp (Suc k + j) = None" using Cons.prems(3) [of "Suc j"] Suc by simp
    qed
    ultimately show ?thesis using Suc by simp
  qed
qed

lemma wl_answered:
  "writeToDisk_loop rp k fd buffer len offset position =
     answered rp k (fst (writeToDisk_loop (\<lambda>k. None) 0 fd buffer len offset position))"
proof (induction len arbitrary: k offset position rule: less_induct)
  case (less len)
  show ?case
  proof (cases "len > 0")
    case False
    then show ?thesis by (simp add: wl_unfold_zero)
  next
    case True
    let ?n = "min MAX_WRITE_BLOCK_LENGTH len"
    have "len - ?n < len" using True by (simp add: MAX_WRITE_BLOCK_LENGTH_def)
    from less [OF this] have
      ih: "\<And>k offset position. writeToDisk_loop rp k fd buffer (len - ?n) offset position =
        answered rp k (fst (writeToDisk_loop (\<lambda>k. None) 0 fd buffer (len - ?n) offset position))"
      by blast
    have sh: "fst (writeToDisk_loop (\<lambda>k. None) (Suc 0) fd buffer (len - ?n) (offset + ?n) (position + int ?n))
       = fst (writeToDisk_loop (\<lambda>k. None) 0 fd buffer (len - ?n) (offset + ?n) (position + int ?n))"
      using wl_success_k [of "Suc 0" fd buffer "len - ?n" "offset + ?n" "position + int ?n"] by blast
    show ?thesis
      using True ih [of "Suc k" "offset + ?n" "position + int ?n"] sh
      by (simp add: wl_unfold_pos Let_def split_beta split: option.splits)
  qed
qed

lemma writeToDisk_answered:
  "writeToDisk rp k fd buffer (length buffer) position = answered rp k (chunk_writes fd buffer position)"
  unfolding writeToDisk_def chunk_writes_def by (rule wl_answered)

lemma flush_loop_answered:
  "flush_loop rp k fd recs = answered rp k (fst (flush_loop (\<lambda>k. None) 0 fd recs))"
proof (induction recs arbitrary: k rule: length_induct)
  case (1 recs)
  show ?case
  proof (cases recs)
    case Nil
    then show ?thesis by simp
  next
    case (Cons r rest)
    obtain b p where r: "r = (b, p)" by (cases r)
    let ?c = "coalesce b p rest"
    have lt: "length (snd ?c) < length recs"
      using coalesce_length [of b p rest] Cons by simp
    have ih: "\<And>k. flush_loop rp k fd (snd ?c) =
        answered rp k (fst (flush_loop (\<lambda>k. None) 0 fd (snd ?c)))"
      using 1 lt by blast
    have full: "fst (flush_loop (\<lambda>k. None) 0 fd recs) =
        chunk_writes fd (fst ?c) p @ fst (flush_loop (\<lambda>k. None) 0 fd (snd ?c))"
      using flush_loop_success [of 0 fd recs] flush_loop_success [of 0 fd "snd ?c"]
      by (simp add: Cons r merge_adjacent_coalesce)
    show ?thesis
      unfolding full answered_append
      by (simp add: Cons r writeToDisk_answered ih split: prod.splits option.splits)
  qed
qed

lemma flush_loop_ok:
  assumes "\<And>i. i < length (fst (flush_loop (\<lambda>k. None) 0 fd recs)) \<Longrightarrow> rp i = None"
  shows "flush_loop rp 0 fd recs =
           (fst (flush_loop (\<lambda>k. None) 0 fd recs),
            length (fst (flush_loop (\<lambda>k. None) 0 fd recs)), None)"
  using answered_ok [of "fst (flush_loop (\<lambda>k. None) 0 fd recs)" rp 0] assms
  by (simp add: flush_loop_answered [of rp 0 fd recs])

lemma flush_loop_fail:
  assumes "i < length (fst (flush_loop (\<lambda>k. None) 0 fd recs))" and "rp i = Some e"
    and "\<And>j. j < i \<Longrightarrow> rp j = None"
  shows "flush_loop rp 0 fd recs =
           (take (Suc i) (fst (flush_loop (\<lambda>k. None) 0 fd recs)), Suc i, Some e)"
  using answered_fail [of i "fst (flush_loop (\<lambda>k. None) 0 fd recs)" rp 0 e] assms
  by (simp add: flush_loop_answered [of rp 0 fd recs])




text \<open>
  C9, as stated, fails: a flush whose write fails with ENOENT (status NO_SUCH_FILE, errno
  34 in the client) reports the error number -2 to the caller, and a flush whose write
  fails with EFAILURE (status FAILURE, errno -2) reports success.
\<close>

theorem flush_enoent_propagates_counterexample:
  "snd (snd (fuse_flush linux_env
      (\<lambda>k. Some (createError NO_SUCH_FILE ''No such file''
                   \<lparr> ci_command = ''write'', ci_path = None, ci_handle = Some [0, 0, 0, 3] \<rparr>))
      ''/d/f'' 3 buffered_adapter)) = Done (- 2)
   \<and> snd (snd (fuse_flush linux_env
      (\<lambda>k. Some (createError FAILURE ''Failure''
                   \<lparr> ci_command = ''write'', ci_path = None, ci_handle = Some [0, 0, 0, 3] \<rparr>))
      ''/d/f'' 3 buffered_adapter)) = Done 0"
  by (simp add: fuse_flush_def buffered_adapter_def example_adapter_def Let_def writeToDisk_def
      wl_unfold_pos MAX_WRITE_BLOCK_LENGTH_def createError_def fuseError_def getErrno_def
      linux_env_def NO_SUCH_FILE_def FAILURE_def STATUS_EOF_def PERMISSION_DENIED_def
      STATUS_OK_def BAD_MESSAGE_def)

text \<open>
  C9, amended: the writes of a flush (those that \<open>flush_loop\<close> issues when every reply
  is a success) are sent one after the other, the server answering the \<open>k\<close>-th with
  \<open>rp k\<close>, and the first that fails, whichever it is, ends the flush: the writes up to
  it have been sent, the later ones are not. The flush reports success when no write
  fails and when the failing write fails with an error whose errno is -2; in the
  client's error taxonomy that is EFAILURE (status FAILURE or BAD_MESSAGE), not ENOENT,
  which carries errno 34. A failure with any other error, ENOENT among them, is reported
  to the caller with the number \<open>getErrno\<close> gives it.
\<close>

theorem flush_failure_status:
  assumes "state s = Ready" and "data s fd = Some recs"
  shows "((\<forall>i < length (fst (flush_loop (\<lambda>k. None) 0 fd recs)). rp i = None) \<longrightarrow>
            snd (fuse_flush env rp path fd s) = (fst (flush_loop (\<lambda>k. None) 0 fd recs), Done 0))
       \<and> (i < length (fst (flush_loop (\<lambda>k. None) 0 fd recs)) \<and> rp i = Some err
            \<and> (\<forall>j < i. rp j = None) \<longrightarrow>
            snd (fuse_flush env rp path fd s) =
              (take (Suc i) (fst (flush_loop (\<lambda>k. None) 0 fd recs)),
               Done (if err_errno err = Some (- 2) then 0 else getErrno env err)))
       \<and> (err_errno (createError code message info) = Some (- 2))
           = (code = STATUS_OK \<or> code = FAILURE \<or> code = BAD_MESSAGE)
       \<and> (err_code (createError code message info) = Some ''EFAILURE'')
           = (code = STATUS_OK \<or> code = FAILURE \<or> code = BAD_MESSAGE)
       \<and> err_errno (createError NO_SUCH_FILE message info) = Some 34
       \<and> err_code (createError NO_SUCH_FILE message info) = Some ''ENOENT''"
proof -
  let ?full = "fst (flush_loop (\<lambda>k. None) 0 fd recs)"
  have ok: "(\<forall>i < length ?full. rp i = None) \<longrightarrow>
              snd (fuse_flush env rp path fd s) = (?full, Done 0)"
  proof
    assume "\<forall>i < length ?full. rp i = None"
    then have "flush_loop rp 0 fd recs = (?full, length ?full, None)"
      by (intro flush_loop_ok) simp
    then show "snd (fuse_flush env rp path fd s) = (?full, Done 0)"
      using assms by (simp add: fuse_flush_def Let_def)
  qed
  have fail: "i < length ?full \<and> rp i = Some err \<and> (\<forall>j < i. rp j = None) \<longrightarrow>
            snd (fuse_flush env rp path fd s) =
              (take (Suc i) ?full,
               Done (if err_errno err = Some (- 2) then 0 else getErrno env err))"
  proof
    assume a: "i < length ?full \<and> rp i = Some err \<and> (\<forall>j < i. rp j = None)"
    then have "flush_loop rp 0 fd recs = (take (Suc i) ?full, Suc i, Some err)"
      by (intro flush_loop_fail) simp_all
    then show "snd (fuse_flush env rp path fd s) =
              (take (Suc i) ?full,
               Done (if err_errno err = Some (- 2) then 0 else getErrno env err))"
      using assms by (simp add: fuse_flush_def Let_def fuseError_def)
  qed
  show ?thesis
    using ok fail createError_taxonomy by blast
qed

theorem flush_failure_status_witness:
  "snd (fuse_flush linux_env
      (\<lambda>k. if k = 1 then Some (createError NO_SUCH_FILE ''No such file''
                   \<lparr> ci_command = ''write'', ci_path = None, ci_handle = Some [0, 0, 0, 3] \<rparr>)
            else None)
      ''/d/f'' 3 gapped_adapter) =
     ([CallWrite 3 [104, 101, 108, 108, 111] 0, CallWrite 3 [119, 111, 114, 108, 100] 100],
      Done (- 2))
   \<and> err_errno (createError NO_SUCH_FILE ''No such file''
                   \<lparr> ci_command = ''write'', ci_path = None, ci_handle = Some [0, 0, 0, 3] \<rparr>)
       = Some 34"
proof -
  let ?e = "createError NO_SUCH_FILE ''No such file''
              \<lparr> ci_command = ''write'', ci_path = None, ci_handle = Some [0, 0, 0, 3] \<rparr>"
  let ?rp = "\<lambda>k::nat. if k = 1 then Some ?e else None"
  let ?recs = "[([104, 101, 108, 108, 111], 0), ([119, 111, 114, 108, 100], 100)] :: (bytes \<times> int) list"
  have s: "state gapped_adapter = Ready"
    and d: "data gapped_adapter 3 = Some ?recs"
    by (simp_all add: gapped_adapter_def example_adapter_def)
  have full: "fst (flush_loop (\<lambda>k. None) 0 3 ?recs) =
      [CallWrite 3 [104, 101, 108, 108, 111] 0, CallWrite 3 [119, 111, 114, 108, 100] 100]"
    by (simp add: writeToDisk_def wl_unfold_pos wl_unfold_zero MAX_WRITE_BLOCK_LENGTH_def Let_def)
  have n: "err_errno ?e \<noteq> Some (- 2)"
    by (simp add: createError_taxonomy NO_SUCH_FILE_def STATUS_OK_def FAILURE_def BAD_MESSAGE_def)
  have g: "getErrno linux_env ?e = - 2"
    by (simp add: getErrno_def createError_def linux_env_def Let_def NO_SUCH_FILE_def
        STATUS_EOF_def)
  have h: "(1::nat) < length (fst (flush_loop (\<lambda>k. None) 0 3 ?recs)) \<and> ?rp 1 = Some ?e
            \<and> (\<forall>j < 1. ?rp j = None)"
    unfolding full by simp
  have "snd (fuse_flush linux_env ?rp ''/d/f'' 3 gapped_adapter) =
              (take (Suc 1) (fst (flush_loop (\<lambda>k. None) 0 3 ?recs)),
               Done (if err_errno ?e = Some (- 2) then 0 else getErrno linux_env ?e))"
    using flush_failure_status [OF s d, where env = linux_env and rp = ?rp and i = 1
        and err = ?e and path = "''/d/f''"] h
    by blast
  moreover have "err_errno ?e = Some 34"
    by (rule createError_taxonomy(3))
  ultimately show ?thesis
    unfolding full using n g by simp
qed

section \<open>Read-only mode of the safe filesystem\<close>

text \<open>
  C2: in read-only mode each of \<open>open\<close> with flags other than \<open>r\<close>, \<open>write\<close>,
  \<open>setstat\<close>, \<open>fsetstat\<close>, \<open>unlink\<close>, \<open>mkdir\<close>, \<open>rmdir\<close>, \<open>rename\<close>, \<open>symlink\<close>,
  \<open>link\<close> and \<open>fcopy\<close> fails with EROFS and leaves the wrapper as it was: no call is
  made on the underlying filesystem and no handle is allocated or marked busy.
\<close>

theorem readOnly_blocks:
  assumes "sf_readOnly s" and "blocked_when_readOnly op"
  shows "safe_apply op s = (s, Failed ''EROFS'')
       \<and> sf_calls (fst (safe_apply op s)) = sf_calls s
       \<and> sf_handles (fst (safe_apply op s)) = sf_handles s"
proof -
  have ro: "isReadOnly s" using assms(1) by (simp add: isReadOnly_def)
  have "safe_apply op s = (s, Failed ''EROFS'')"
    using ro assms(2)
    by (cases op)
       (simp_all add: safe_open_def safe_write_def safe_setstat_def safe_fsetstat_def
          safe_unlink_def safe_mkdir_def safe_rmdir_def safe_rename_def safe_symlink_def
          safe_link_def safe_fcopy_def FileUtil_fail_def)
  then show ?thesis by simp
qed

theorem readOnly_blocks_witness:
  "safe_apply (SUnlink ''/a'') (new_safe_fs False ''/srv'' True False)
     = (new_safe_fs False ''/srv'' True False, Failed ''EROFS'')
   \<and> safe_apply (SOpen ''/a'' (FlagsNumber 1) \<lparr> st_size = None, st_uid = None, st_gid = None,
         st_mode = None, st_atime = None, st_mtime = None \<rparr>) (new_safe_fs False ''/srv'' True False)
     = (new_safe_fs False ''/srv'' True False, Failed ''EROFS'')
   \<and> sf_calls (fst (safe_apply (SUnlink ''/a'') (new_safe_fs False ''/srv'' False False)))
     = [FsUnlink ''/srv/a'']"
proof -
  have a: "sf_readOnly (new_safe_fs False ''/srv'' True False)"
    by (simp add: new_safe_fs_def)
  have n: "normalize ''/srv'' = ''/srv''"
    by (simp add: normalize_def isAbsolute_def Let_def)
  have j: "path_join ''/srv'' (path_join ''/'' ''/a'') = ''/srv/a''"
    by (simp add: path_join_def normalize_def isAbsolute_def Let_def)
  have c: "sf_calls (fst (safe_apply (SUnlink ''/a'') (new_safe_fs False ''/srv'' False False)))
     = [FsUnlink ''/srv/a'']"
    by (simp add: safe_unlink_def isReadOnly_def call_fs_def toRealPath_def new_safe_fs_def n j)
  show ?thesis
    using readOnly_blocks [OF a, of "SUnlink ''/a''"]
      readOnly_blocks [OF a, of "SOpen ''/a'' (FlagsNumber 1) \<lparr> st_size = None, st_uid = None,
         st_gid = None, st_mode = None, st_atime = None, st_mtime = None \<rparr>"] c
    by (simp add: flags_not_r_def)
qed

section \<open>Virtual and real paths\<close>

lemma split_path_nonempty [simp]: "split_path x \<noteq> []"
  by (induction x) (auto split: list.splits)

lemma split_path_sep: "split_path (a @ CHR ''/'' # b) = split_path a @ split_path b"
proof (induction a)
  case Nil
  then show ?case by simp
next
  case (Cons c a)
  obtain seg segs where s: "split_path a = seg # segs"
    by (cases "split_path a") simp_all
  show ?case using Cons by (simp add: s)
qed

lemma split_path_slash_free: "seg \<in> set (split_path x) \<Longrightarrow> CHR ''/'' \<notin> set seg"
proof (induction x arbitrary: seg)
  case Nil
  then show ?case by simp
next
  case (Cons c x)
  obtain s0 ss where s: "split_path x = s0 # ss"
    by (cases "split_path x") simp_all
  show ?case using Cons s by (auto split: if_splits)
qed

lemma split_path_plain: "CHR ''/'' \<notin> set x \<Longrightarrow> split_path x = [x]"
  by (induction x) auto

lemma split_join:
  "xs \<noteq> [] \<Longrightarrow> (\<And>seg. seg \<in> set xs \<Longrightarrow> CHR ''/'' \<notin> set seg) \<Longrightarrow>
   split_path (join_segments xs) = xs"
proof (induction xs rule: join_segments.induct)
  case 1
  then show ?case by simp
next
  case (2 seg)
  then show ?case by (simp add: split_path_plain)
next
  case (3 seg v va)
  have "split_path (seg @ CHR ''/'' # join_segments (v # va)) =
          split_path seg @ split_path (join_segments (v # va))"
    by (rule split_path_sep)
  then show ?case using 3 by (simp add: split_path_plain)
qed

lemma normalize_segments_append:
  "normalize_segments a res (xs @ ys) = normalize_segments a (normalize_segments a res xs) ys"
  by (induction a res xs rule: normalize_segments.induct) auto

lemma normalize_segments_plain:
  "(\<And>seg. seg \<in> set xs \<Longrightarrow> plain_segment seg) \<Longrightarrow> normalize_segments a res xs = res @ xs"
  by (induction xs arbitrary: res) (auto simp: plain_segment_def)

lemma normalize_segments_result_plain:
  "(\<And>seg. seg \<in> set res \<Longrightarrow> plain_segment seg) \<Longrightarrow>
   (\<And>seg. seg \<in> set xs \<Longrightarrow> CHR ''/'' \<notin> set seg) \<Longrightarrow>
   seg \<in> set (normalize_segments False res xs) \<Longrightarrow> plain_segment seg"
proof (induction xs arbitrary: res)
  case Nil
  then show ?case by simp
next
  case (Cons x xs)
  have bl: "\<And>seg. seg \<in> set (butlast res) \<Longrightarrow> plain_segment seg"
    using Cons.prems(1) by (meson in_set_butlastD)
  have ap: "\<And>seg. x \<noteq> [] \<Longrightarrow> x \<noteq> ''.'' \<Longrightarrow> x \<noteq> ''..'' \<Longrightarrow> seg \<in> set (res @ [x])
            \<Longrightarrow> plain_segment seg"
    using Cons.prems(1,2) by (auto simp: plain_segment_def)
  show ?case
    using Cons.IH [of res] Cons.IH [of "butlast res"] Cons.IH [of "res @ [x]"]
      Cons.prems bl ap
    by (auto split: if_splits)
qed


lemma join_segments_append:
  "xs \<noteq> [] \<Longrightarrow> ys \<noteq> [] \<Longrightarrow> join_segments (xs @ ys) = join_segments xs @ CHR ''/'' # join_segments ys"
proof (induction xs rule: join_segments.induct)
  case 1
  then show ?case by simp
next
  case (2 seg)
  then show ?case by (cases ys) simp_all
next
  case (3 seg v va)
  then show ?case by simp
qed

lemma join_segments_nonempty:
  "xs \<noteq> [] \<Longrightarrow> (\<And>seg. seg \<in> set xs \<Longrightarrow> plain_segment seg) \<Longrightarrow> join_segments xs \<noteq> []"
  by (induction xs rule: join_segments.induct) (auto simp: plain_segment_def)

lemma join_segments_empty_iff:
  "(\<And>seg. seg \<in> set xs \<Longrightarrow> plain_segment seg) \<Longrightarrow> (join_segments xs = []) = (xs = [])"
  using join_segments_nonempty [of xs] by auto

lemma strip_root_append: "strip_root root (root @ y) = y"
  by (induction root) simp_all

lemma strip_root_no_prefix: "\<not> prefix root full \<Longrightarrow> strip_root root full = ''/''"
  by (induction root full rule: strip_root.induct) auto

lemma normalize_absolute:
  assumes "isAbsolute x"
  shows "normalize x =
           abs_form (normalize_segments False [] (split_path x)) (last x = CHR ''/'')"
    and "\<And>seg. seg \<in> set (normalize_segments False [] (split_path x)) \<Longrightarrow> plain_segment seg"
proof -
  show pl: "\<And>seg. seg \<in> set (normalize_segments False [] (split_path x)) \<Longrightarrow> plain_segment seg"
    using normalize_segments_result_plain [of "[]" "split_path x"] split_path_slash_free by auto
  have "(join_segments (normalize_segments False [] (split_path x)) = []) =
          (normalize_segments False [] (split_path x) = [])"
    by (rule join_segments_empty_iff) (rule pl)
  then show "normalize x =
           abs_form (normalize_segments False [] (split_path x)) (last x = CHR ''/'')"
    using assms by (auto simp: normalize_def abs_form_def Let_def isAbsolute_def)
qed


lemma last_join_segments:
  "xs \<noteq> [] \<Longrightarrow> (\<And>seg. seg \<in> set xs \<Longrightarrow> plain_segment seg) \<Longrightarrow>
   last (join_segments xs) \<noteq> CHR ''/''"
proof (induction xs rule: join_segments.induct)
  case 1
  then show ?case by simp
next
  case (2 seg)
  then have "seg \<noteq> []" "CHR ''/'' \<notin> set seg" by (auto simp: plain_segment_def)
  then show ?case by (metis join_segments.simps(2) last_in_set)
next
  case (3 seg v va)
  have "join_segments (v # va) \<noteq> []"
    using 3(3) by (intro join_segments_nonempty) auto
  then show ?case using 3 by simp
qed

lemma split_abs_form:
  assumes "\<And>seg. seg \<in> set segs \<Longrightarrow> plain_segment seg"
  shows "split_path (abs_form segs t) =
           [] # (if segs = [] then [[]] else if t then segs @ [[]] else segs)"
proof -
  have sf: "\<And>seg. seg \<in> set segs \<Longrightarrow> CHR ''/'' \<notin> set seg"
    using assms by (auto simp: plain_segment_def)
  have "segs \<noteq> [] \<Longrightarrow> split_path (join_segments segs @ CHR ''/'' # []) = segs @ [[]]"
    using split_path_sep [of "join_segments segs" "[]"] split_join [of segs] sf by simp
  then show ?thesis
    using split_join [of segs] sf by (simp add: abs_form_def)
qed

lemma normalize_segments_abs_form:
  assumes "\<And>seg. seg \<in> set segs \<Longrightarrow> plain_segment seg"
  shows "normalize_segments False res (split_path (abs_form segs t)) = res @ segs"
proof -
  have p: "normalize_segments False res segs = res @ segs"
    using assms by (rule normalize_segments_plain)
  have "normalize_segments False res (segs @ [[]]) = res @ segs"
    by (simp add: normalize_segments_append p)
  then show ?thesis
    using p by (simp add: split_abs_form [OF assms])
qed

lemma abs_form_append:
  assumes "rs \<noteq> []"
  shows "abs_form (rs @ qs) (qs = [] \<or> t) = abs_form rs False @ abs_form qs t"
proof (cases "qs = []")
  case True
  then show ?thesis using assms by (simp add: abs_form_def)
next
  case False
  then show ?thesis using assms by (simp add: abs_form_def join_segments_append)
qed

lemma last_abs_form:
  assumes "\<And>seg. seg \<in> set qs \<Longrightarrow> plain_segment seg"
  shows "(last (abs_form qs t) = CHR ''/'') = (qs = [] \<or> t)"
proof (cases "qs = []")
  case True
  then show ?thesis by (simp add: abs_form_def)
next
  case False
  have ne: "join_segments qs \<noteq> []" using False assms by (intro join_segments_nonempty) auto
  have "last (join_segments qs) \<noteq> CHR ''/''"
    using False assms by (intro last_join_segments) auto
  then show ?thesis using False ne by (simp add: abs_form_def)
qed

lemma real_path_form:
  assumes rs: "rs \<noteq> []" "\<And>seg. seg \<in> set rs \<Longrightarrow> plain_segment seg"
    and qs: "\<And>seg. seg \<in> set qs \<Longrightarrow> plain_segment seg"
  shows "normalize (abs_form rs False @ CHR ''/'' # abs_form qs t)
           = abs_form rs False @ abs_form qs t"
proof -
  let ?x = "abs_form rs False @ CHR ''/'' # abs_form qs t"
  have ab: "isAbsolute ?x" by (simp add: isAbsolute_def abs_form_def)
  have sp: "split_path ?x = split_path (abs_form rs False) @ split_path (abs_form qs t)"
    by (rule split_path_sep)
  have ns: "normalize_segments False [] (split_path ?x) = rs @ qs"
    using normalize_segments_abs_form [OF rs(2), where res = "[]" and t = False]
      normalize_segments_abs_form [OF qs, where res = rs and t = t]
    by (simp add: sp normalize_segments_append)
  have la: "(last ?x = CHR ''/'') = (qs = [] \<or> t)"
    using last_abs_form [OF qs, where t = t] by (simp add: abs_form_def)
  have "normalize ?x = abs_form (rs @ qs) (qs = [] \<or> t)"
    using normalize_absolute(1) [OF ab] by (simp only: ns la)
  then show ?thesis
    by (simp only: abs_form_append [OF rs(1)])
qed

lemma path_join_root:
  "path_join ''/'' p =
     abs_form (normalize_segments False [] (split_path p)) (p \<noteq> [] \<and> last p = CHR ''/'')"
proof (cases "p = []")
  case True
  have "normalize ''/'' = ''/''" by (simp add: normalize_def isAbsolute_def)
  then show ?thesis using True by (simp add: path_join_def abs_form_def)
next
  case False
  have ab: "isAbsolute (''/'' @ ''/'' @ p)" by (simp add: isAbsolute_def)
  show ?thesis
    using False normalize_absolute(1) [OF ab] by (simp add: path_join_def)
qed

lemma path_join_root_absolute:
  assumes "isAbsolute p"
  shows "path_join ''/'' p = normalize p"
proof -
  have "p \<noteq> []" using assms by (auto simp: isAbsolute_def)
  then show ?thesis
    using normalize_absolute(1) [OF assms] by (simp add: path_join_root)
qed

lemma strip_root_prefix:
  "prefix root full \<Longrightarrow> strip_root root full = drop (length root) full"
  by (auto simp: prefix_def strip_root_append)

text \<open>
  C1, as stated, fails in three ways. When the root ends in a separator, the separator
  that starts the virtual path is stripped together with the root: with the root \<open>/\<close>,
  and with the root \<open>/srv/\<close>, the path \<open>/a\<close> comes back as \<open>a\<close>. A relative path does
  not come back as its normalized form: under the root \<open>/srv\<close> the path \<open>a\<close> comes
  back as \<open>/a\<close>. And a path outside the root directory is not always answered by \<open>/\<close>:
  under the root \<open>/srv\<close> the path \<open>/srv2/secret\<close> begins with the characters of the
  root, and comes back as \<open>2/secret\<close>.
\<close>

theorem virtual_real_roundtrip_counterexample:
  "toVirtualPath (new_safe_fs False ''/'' False False)
     (toRealPath (new_safe_fs False ''/'' False False) ''/a'') = ''a''
   \<and> toVirtualPath (new_safe_fs False ''/'' False False)
     (toRealPath (new_safe_fs False ''/'' False False) ''/a'') \<noteq> normalize ''/a''
   \<and> toVirtualPath (new_safe_fs False ''/srv/'' False False)
     (toRealPath (new_safe_fs False ''/srv/'' False False) ''/a'') = ''a''
   \<and> toVirtualPath (new_safe_fs False ''/srv/'' False False)
     (toRealPath (new_safe_fs False ''/srv/'' False False) ''/a'') \<noteq> normalize ''/a''
   \<and> toVirtualPath (new_safe_fs False ''/srv'' False False)
     (toRealPath (new_safe_fs False ''/srv'' False False) ''a'') = ''/a''
   \<and> toVirtualPath (new_safe_fs False ''/srv'' False False)
     (toRealPath (new_safe_fs False ''/srv'' False False) ''a'') \<noteq> normalize ''a''
   \<and> toVirtualPath (new_safe_fs False ''/srv'' False False) ''/srv2/secret'' = ''2/secret''
   \<and> toVirtualPath (new_safe_fs False ''/srv'' False False) ''/srv2/secret'' \<noteq> ''/''"
  by (simp add: new_safe_fs_def toVirtualPath_def toRealPath_def path_join_def normalize_def
      isAbsolute_def Let_def)

text \<open>
  C1, amended: let the root be the normalization of an absolute path, and let it not end
  in a separator (so it is not \<open>/\<close>), on a POSIX host. Then for every path \<open>p\<close>,
  \<open>toVirtualPath(toRealPath(p))\<close> is \<open>join("/", p)\<close>, which for an absolute \<open>p\<close> is the
  normalized form of \<open>p\<close>; \<open>toRealPath(p)\<close> is the root followed by that path.
  \<open>toVirtualPath\<close> returns \<open>/\<close> for every path that does not begin with the characters
  of the root, and for the root itself; of any other path that begins with the
  characters of the root it returns what follows them.
\<close>

theorem virtual_real_roundtrip:
  assumes "sf_root s = normalize v" and "isAbsolute v" and "last (sf_root s) \<noteq> CHR ''/''"
    and "\<not> sf_isWindows s"
  shows "toVirtualPath s (toRealPath s p) = path_join ''/'' p
       \<and> (isAbsolute p \<longrightarrow> toVirtualPath s (toRealPath s p) = normalize p)
       \<and> toRealPath s p = sf_root s @ path_join ''/'' p
       \<and> (\<not> prefix (sf_root s) full \<longrightarrow> toVirtualPath s full = ''/'')
       \<and> (prefix (sf_root s) full \<longrightarrow>
            toVirtualPath s full =
              (if full = sf_root s then ''/'' else drop (length (sf_root s)) full))"
proof -
  let ?rs = "normalize_segments False [] (split_path v)"
  let ?qs = "normalize_segments False [] (split_path p)"
  let ?t = "p \<noteq> [] \<and> last p = CHR ''/''"
  have rs_plain: "\<And>seg. seg \<in> set ?rs \<Longrightarrow> plain_segment seg"
    by (rule normalize_absolute(2) [OF assms(2)])
  have qs_plain: "\<And>seg. seg \<in> set ?qs \<Longrightarrow> plain_segment seg"
    using normalize_segments_result_plain [of "[]" "split_path p"] split_path_slash_free by auto
  have root0: "sf_root s = abs_form ?rs (last v = CHR ''/'')"
    using normalize_absolute(1) [OF assms(2)] assms(1) by simp
  have "\<not> (?rs = [] \<or> last v = CHR ''/'')"
    using last_abs_form [OF rs_plain, where t = "last v = CHR ''/''"] assms(3) root0 by simp
  then have rs_ne: "?rs \<noteq> []" and nt: "last v \<noteq> CHR ''/''" by simp_all
  have root: "sf_root s = abs_form ?rs False"
    using root0 nt by simp
  have q: "path_join ''/'' p = abs_form ?qs ?t" by (rule path_join_root)
  have q_ne: "path_join ''/'' p \<noteq> []" by (simp add: q abs_form_def)
  have root_ne: "sf_root s \<noteq> []" by (simp add: root abs_form_def)
  have rp: "normalize (abs_form ?rs False @ CHR ''/'' # abs_form ?qs ?t)
              = abs_form ?rs False @ abs_form ?qs ?t"
  proof (rule real_path_form)
    show "?rs \<noteq> []" by (rule rs_ne)
    show "\<And>seg. seg \<in> set ?rs \<Longrightarrow> plain_segment seg" by (rule rs_plain)
    show "\<And>seg. seg \<in> set ?qs \<Longrightarrow> plain_segment seg" by (rule qs_plain)
  qed
  have "path_join (sf_root s) (path_join ''/'' p)
          = normalize (sf_root s @ CHR ''/'' # path_join ''/'' p)"
    using q_ne root_ne by (simp add: path_join_def [of "sf_root s"])
  then have real: "toRealPath s p = sf_root s @ path_join ''/'' p"
    using rp by (simp add: toRealPath_def root q)
  have virt: "toVirtualPath s (toRealPath s p) = path_join ''/'' p"
    using assms(4) q_ne by (simp add: toVirtualPath_def real strip_root_append Let_def)
  have esc: "\<not> prefix (sf_root s) full \<longrightarrow> toVirtualPath s full = ''/''"
    using assms(4) by (simp add: toVirtualPath_def strip_root_no_prefix Let_def)
  have pre: "prefix (sf_root s) full \<longrightarrow>
            toVirtualPath s full =
              (if full = sf_root s then ''/'' else drop (length (sf_root s)) full)"
    using assms(4)
    by (auto simp: toVirtualPath_def strip_root_prefix Let_def prefix_def)
  have norm: "isAbsolute p \<longrightarrow> toVirtualPath s (toRealPath s p) = normalize p"
    using virt path_join_root_absolute [of p] by (simp only:) simp
  show ?thesis
    using virt norm real esc pre by blast
qed

theorem virtual_real_roundtrip_witness:
  "toVirtualPath (new_safe_fs False ''/srv'' False False)
     (toRealPath (new_safe_fs False ''/srv'' False False) ''/a/../b/'') = ''/b/''
   \<and> normalize ''/a/../b/'' = ''/b/''
   \<and> toRealPath (new_safe_fs False ''/srv'' False False) ''/../etc'' = ''/srv/etc''
   \<and> toVirtualPath (new_safe_fs False ''/srv'' False False) ''/etc'' = ''/''"
proof -
  let ?s = "new_safe_fs False ''/srv'' False False"
  have n: "normalize ''/srv'' = ''/srv''"
    by (simp add: normalize_def isAbsolute_def Let_def)
  have r: "sf_root ?s = ''/srv''" by (simp add: new_safe_fs_def n)
  have a1: "sf_root ?s = normalize ''/srv''" and a2: "isAbsolute ''/srv''"
    and a3: "last (sf_root ?s) \<noteq> CHR ''/''"
    and a4: "\<not> sf_isWindows ?s"
    by (simp_all add: new_safe_fs_def n isAbsolute_def)
  have j1: "path_join ''/'' ''/a/../b/'' = ''/b/''"
    by (simp add: path_join_def normalize_def isAbsolute_def Let_def)
  have j3: "path_join ''/'' ''/../etc'' = ''/etc''"
    by (simp add: path_join_def normalize_def isAbsolute_def Let_def)
  have n2: "normalize ''/a/../b/'' = ''/b/''"
    by (simp add: normalize_def isAbsolute_def Let_def)
  have np: "\<not> prefix (sf_root ?s) ''/etc''" by (simp add: r)
  note t1 = virtual_real_roundtrip [OF a1 a2 a3 a4, where p = "''/a/../b/''" and full = "''/etc''"]
  note t2 = virtual_real_roundtrip [OF a1 a2 a3 a4, where p = "''/../etc''" and full = "''/etc''"]
  have c1: "toVirtualPath ?s (toRealPath ?s ''/a/../b/'') = path_join ''/'' ''/a/../b/''"
    using t1 by blast
  have c3: "toRealPath ?s ''/../etc'' = sf_root ?s @ path_join ''/'' ''/../etc''"
    using t2 by blast
  have c4: "toVirtualPath ?s ''/etc'' = ''/''"
    using t2 np by blast
  show ?thesis
    unfolding c1 c3 c4 j1 j3 n2 r by simp
qed

end
